theory Spec2Isabelle
  imports Main "HOL-Library.AList" "HOL-Library.Word"
begin

unbundle bit_operations_syntax

section \<open>Exceptions and JSON values\<close>

text \<open>
  Every exception that can leave a function of the traceroute package is a value of
  \<open>error\<close>; a function that may raise returns \<open>error + 'a\<close> with \<open>Inl\<close> for the
  exception. \<open>ClientError\<close> stands for any exception raised by a cloud API call (the
  string names the call), \<open>ValueError\<close> for the one \<open>ipaddress.ip_address\<close> raises
  on a malformed address.
\<close>

datatype error = ClientError string | ValueError string

datatype json =
    JNull
  | JInt int
  | JStr string
  | JArr "json list"
  | JObj "(string \<times> json) list"

section \<open>core/cache.py: the file cache\<close>

text \<open>
  One cache file holds the record written by \<open>Cache.set\<close>. Timestamps are integers
  counting microseconds (the resolution of \<open>datetime\<close>); \<open>ttl_seconds\<close> counts
  seconds. A file is missing, unreadable as JSON (\<open>Corrupt\<close>, the case the
  \<open>except Exception\<close> of \<open>Cache.get\<close> absorbs), or holds a record.
\<close>

record 'a cache_record =
  data :: 'a
  cached_at :: int
  ttl_seconds :: int
  cached_account_id :: "string option"

datatype 'a cache_file = Missing | Corrupt | Stored "'a cache_record"

text \<open>Python truthiness of an optional string: \<open>None\<close> and the empty string are false.\<close>

fun truthy :: "string option \<Rightarrow> bool" where
  "truthy None = False"
| "truthy (Some s) = (s \<noteq> [])"

text \<open>
  \<open>Cache.get(ignore_expiry, current_account)\<close> at clock reading \<open>now\<close>: the returned
  data (or \<open>None\<close>) together with the file afterwards, since an account mismatch
  deletes the file.
\<close>

definition cache_get ::
  "bool \<Rightarrow> string option \<Rightarrow> int \<Rightarrow> 'a cache_file \<Rightarrow> 'a option \<times> 'a cache_file" where
  "cache_get ignore_expiry current_account now f =
     (case f of
        Missing \<Rightarrow> (None, Missing)
      | Corrupt \<Rightarrow> (None, Corrupt)
      | Stored raw \<Rightarrow>
          if truthy current_account \<and> truthy (cached_account_id raw)
             \<and> cached_account_id raw \<noteq> current_account
          then (None, Missing)
          else if \<not> ignore_expiry \<and> now - cached_at raw > ttl_seconds raw * 1000000
          then (None, f)
          else (Some (data raw), f))"

text \<open>
  \<open>Cache.set(data, ttl_seconds, account_id)\<close>; \<open>default_ttl\<close> is what
  \<open>get_default_ttl()\<close> reads from the configuration. \<open>ttl_seconds or default\<close>
  takes the default for \<open>None\<close> and for 0.
\<close>

definition cache_set ::
  "'a \<Rightarrow> int option \<Rightarrow> string option \<Rightarrow> int \<Rightarrow> int \<Rightarrow> 'a cache_file" where
  "cache_set d ttl acct now default_ttl =
     Stored \<lparr> data = d, cached_at = now,
              ttl_seconds = (case ttl of None \<Rightarrow> default_ttl
                             | Some n \<Rightarrow> if n = 0 then default_ttl else n),
              cached_account_id = acct \<rparr>"

definition cache_clear :: "'a cache_file \<Rightarrow> 'a cache_file" where
  "cache_clear f = Missing"

section \<open>The cloud API client\<close>

text \<open>
  The records the API returns, with the keys the package reads. A key read with
  \<open>d["K"]\<close> is a plain field, a key read with \<open>d.get("K")\<close> an optional one.
  Records whose content is never inspected are kept as opaque key/value lists.
\<close>

type_synonym aws_dict = "(string \<times> string) list"

record core_network =
  CoreNetworkId :: string

record tgw =
  TransitGatewayId :: string

record vpc =
  VpcId :: string

record attachment =
  AttachmentId :: string
  ResourceArn :: "string option"
  EdgeLocation :: "string option"
  SegmentName :: "string option"
  NetworkFunctionGroupName :: "string option"
  Tags :: "(string \<times> string) list"

text \<open>
  A routing policy document, decoded: only its \<open>segment-actions\<close> are read. The
  \<open>segments\<close> of \<open>when-sent-to\<close> are the string \<open>"*"\<close> or a list of names, as the
  policy schema has them.
\<close>

datatype segments_spec = AllSegments | SegmentList "string list"

record segment_action =
  sa_action :: "string option"
  sa_segment :: "string option"
  when_sent_to_segments :: segments_spec
  via_network_function_groups :: "string list"

record cwan_policy =
  segment_actions :: "segment_action list"

record policy_response =
  PolicyVersionId :: "int option"
  PolicyDocument :: "cwan_policy option"

record raw_route =
  GatewayId :: "string option"
  NatGatewayId :: "string option"
  RouteTransitGatewayId :: "string option"
  RouteNetworkInterfaceId :: "string option"
  DestinationCidrBlock :: "string option"
  DestinationIpv6CidrBlock :: "string option"
  CoreNetworkArn :: "string option"
  State :: "string option"

record association =
  SubnetId :: "string option"
  Main :: "bool option"

record raw_route_table =
  RouteTableId :: string
  RtVpcId :: string
  RtTags :: "(string \<times> string) list"
  Routes :: "raw_route list"
  Associations :: "association list"

record raw_eni =
  NetworkInterfaceId :: string
  EniVpcId :: string
  EniSubnetId :: string
  PrivateIpAddresses :: "string option list"
  Groups :: "string list"

text \<open>
  The API itself: every call either raises or returns its payload. Paginated calls
  return the list of their pages and raise when any page does.
\<close>

record aws =
  get_caller_identity :: "error + string"
  describe_regions :: "error + string list"
  describe_global_networks :: "error + aws_dict list"
  list_core_networks :: "error + core_network list"
  get_core_network_policy :: "string \<Rightarrow> error + policy_response"
  list_attachments :: "string \<Rightarrow> error + attachment list"
  paginate_list_attachments :: "string \<Rightarrow> error + attachment list list"
  describe_transit_gateways :: "string \<Rightarrow> error + tgw list"
  describe_transit_gateway_route_tables :: "string \<Rightarrow> string \<Rightarrow> error + aws_dict list"
  describe_vpcs :: "string \<Rightarrow> error + vpc list"
  describe_route_tables :: "string \<Rightarrow> string list \<Rightarrow> error + raw_route_table list"
  paginate_describe_network_interfaces :: "string \<Rightarrow> error + raw_eni list list"
  describe_network_interfaces_by_ip :: "string \<Rightarrow> string \<Rightarrow> error + raw_eni list"

section \<open>traceroute/staleness.py\<close>

text \<open>
  The two count dictionaries are association lists in insertion order with
  \<open>AList.update\<close> as item assignment, since \<open>is_stale\<close> iterates over them.
\<close>

record ChangeMarkers =
  cwan_policy_version :: "int option"
  cwan_attachment_count :: int
  tgw_count :: "(string \<times> int) list"
  vpc_count :: "(string \<times> int) list"

definition new_markers :: ChangeMarkers where
  "new_markers = \<lparr> cwan_policy_version = None, cwan_attachment_count = 0,
                    tgw_count = [], vpc_count = [] \<rparr>"

definition to_dict :: "ChangeMarkers \<Rightarrow> json" where
  "to_dict m = JObj
     [(''cwan_policy_version'',
         (case cwan_policy_version m of None \<Rightarrow> JNull | Some v \<Rightarrow> JInt v)),
      (''cwan_attachment_count'', JInt (cwan_attachment_count m)),
      (''tgw_count'', JObj (map (\<lambda>(r, c). (r, JInt c)) (tgw_count m))),
      (''vpc_count'', JObj (map (\<lambda>(r, c). (r, JInt c)) (vpc_count m)))]"

text \<open>
  \<open>from_dict\<close> reads each key with \<open>d.get\<close> and its default. The record is typed, so
  a value of another JSON type than the one \<open>to_dict\<close> writes reads as the default.
\<close>

fun json_get :: "json \<Rightarrow> string \<Rightarrow> json option" where
  "json_get (JObj kvs) k = map_of kvs k"
| "json_get _ k = None"

fun int_items :: "(string \<times> json) list \<Rightarrow> (string \<times> int) list" where
  "int_items [] = []"
| "int_items ((k, JInt c) # kvs) = (k, c) # int_items kvs"
| "int_items (_ # kvs) = int_items kvs"

fun count_dict :: "json option \<Rightarrow> (string \<times> int) list" where
  "count_dict (Some (JObj kvs)) = int_items kvs"
| "count_dict _ = []"

definition from_dict :: "json \<Rightarrow> ChangeMarkers" where
  "from_dict d =
     \<lparr> cwan_policy_version =
         (case json_get d ''cwan_policy_version'' of Some (JInt v) \<Rightarrow> Some v | _ \<Rightarrow> None),
       cwan_attachment_count =
         (case json_get d ''cwan_attachment_count'' of Some (JInt n) \<Rightarrow> n | _ \<Rightarrow> 0),
       tgw_count = count_dict (json_get d ''tgw_count''),
       vpc_count = count_dict (json_get d ''vpc_count'') \<rparr>"

text \<open>The first \<open>try\<close> block of \<open>get_current_markers\<close>: policy version, then attachment count.\<close>

definition cwan_markers :: "aws \<Rightarrow> ChangeMarkers \<Rightarrow> ChangeMarkers" where
  "cwan_markers api m =
     (case list_core_networks api of
        Inl e \<Rightarrow> m
      | Inr [] \<Rightarrow> m
      | Inr (cn # _) \<Rightarrow>
          (case get_core_network_policy api (CoreNetworkId cn) of
             Inl e \<Rightarrow> m
           | Inr policy \<Rightarrow>
               (let m1 = m\<lparr> cwan_policy_version := PolicyVersionId policy \<rparr>
                in case list_attachments api (CoreNetworkId cn) of
                     Inl e \<Rightarrow> m1
                   | Inr atts \<Rightarrow> m1\<lparr> cwan_attachment_count := int (length atts) \<rparr>)))"

text \<open>The loop over the regions, each iteration in its own \<open>try\<close>.\<close>

fun region_markers :: "aws \<Rightarrow> string list \<Rightarrow> ChangeMarkers \<Rightarrow> ChangeMarkers" where
  "region_markers api [] m = m"
| "region_markers api (region # rest) m =
     region_markers api rest
       (case describe_transit_gateways api region of
          Inl e \<Rightarrow> m
        | Inr tgws \<Rightarrow>
            (let m1 = m\<lparr> tgw_count := AList.update region (int (length tgws)) (tgw_count m) \<rparr>
             in case describe_vpcs api region of
                  Inl e \<Rightarrow> m1
                | Inr vpcs \<Rightarrow>
                    m1\<lparr> vpc_count := AList.update region (int (length vpcs)) (vpc_count m1) \<rparr>))"

definition get_current_markers :: "aws \<Rightarrow> string list option \<Rightarrow> ChangeMarkers" where
  "get_current_markers api regions =
     (let markers = cwan_markers api new_markers
      in case regions of
           None \<Rightarrow> markers
         | Some rs \<Rightarrow> if rs = [] then markers else region_markers api (take 5 rs) markers)"

text \<open>
  \<open>save_markers\<close> and \<open>get_saved_markers\<close> on the markers cache file. The record
  is written with no TTL argument and no account id, and read with
  \<open>ignore_expiry=True\<close> and no current account.
\<close>

definition save_markers :: "ChangeMarkers \<Rightarrow> int \<Rightarrow> int \<Rightarrow> json cache_file" where
  "save_markers markers now default_ttl = cache_set (to_dict markers) None None now default_ttl"

text \<open>
  \<open>if data:\<close> tests the truthiness of the stored value. The file is written by
  \<open>save_markers\<close> only, so what it holds is a dictionary.
\<close>

fun json_truthy :: "json \<Rightarrow> bool" where
  "json_truthy JNull = False"
| "json_truthy (JInt n) = (n \<noteq> 0)"
| "json_truthy (JStr s) = (s \<noteq> [])"
| "json_truthy (JArr xs) = (xs \<noteq> [])"
| "json_truthy (JObj kvs) = (kvs \<noteq> [])"

definition get_saved_markers :: "int \<Rightarrow> json cache_file \<Rightarrow> ChangeMarkers option" where
  "get_saved_markers now f =
     (case fst (cache_get True None now f) of
        None \<Rightarrow> None
      | Some d \<Rightarrow> if json_truthy d then Some (from_dict d) else None)"

text \<open>
  The verdict's reason. Each constructor stands for one of the messages of
  \<open>is_stale\<close> and carries the values the message interpolates:
  \<open>PolicyChanged s c\<close> for "Cloud WAN policy changed: s -> c",
  \<open>AttachmentCountChanged s c\<close> for "Attachment count changed: s -> c",
  \<open>TgwCountChanged r s c\<close> for "TGW count changed in r: s -> c",
  \<open>VpcCountChanged r s c\<close> for "VPC count changed in r: s -> c".
\<close>

datatype stale_reason =
    NoMarkersSaved
  | PolicyChanged int int
  | AttachmentCountChanged int int
  | TgwCountChanged string int int
  | VpcCountChanged string int int
  | NoChangesDetected

text \<open>
  The loop \<open>for region, count in current.items()\<close>: the first region whose saved
  count is present and differs, with the saved and the current count.
\<close>

fun first_changed ::
  "(string \<times> int) list \<Rightarrow> (string \<times> int) list \<Rightarrow> (string \<times> int \<times> int) option" where
  "first_changed [] saved = None"
| "first_changed ((region, count) # rest) saved =
     (case map_of saved region of
        None \<Rightarrow> first_changed rest saved
      | Some saved_count \<Rightarrow>
          if saved_count \<noteq> count then Some (region, saved_count, count)
          else first_changed rest saved)"

definition is_stale ::
  "aws \<Rightarrow> int \<Rightarrow> json cache_file \<Rightarrow> string list option \<Rightarrow> bool \<times> stale_reason" where
  "is_stale api now f regions =
     (case get_saved_markers now f of
        None \<Rightarrow> (True, NoMarkersSaved)
      | Some saved \<Rightarrow>
          (let current = get_current_markers api regions
           in if cwan_policy_version current \<noteq> None
                 \<and> cwan_policy_version saved \<noteq> None
                 \<and> cwan_policy_version current \<noteq> cwan_policy_version saved
              then (True, PolicyChanged (the (cwan_policy_version saved))
                                        (the (cwan_policy_version current)))
              else if cwan_attachment_count current > 0
                      \<and> cwan_attachment_count saved > 0
                      \<and> cwan_attachment_count current \<noteq> cwan_attachment_count saved
              then (True, AttachmentCountChanged (cwan_attachment_count saved)
                                                 (cwan_attachment_count current))
              else (case first_changed (tgw_count current) (tgw_count saved) of
                      Some (region, saved_count, count) \<Rightarrow>
                        (True, TgwCountChanged region saved_count count)
                    | None \<Rightarrow>
                        (case first_changed (vpc_count current) (vpc_count saved) of
                           Some (region, saved_count, count) \<Rightarrow>
                             (True, VpcCountChanged region saved_count count)
                         | None \<Rightarrow> (False, NoChangesDetected)))))"

section \<open>traceroute/topology.py\<close>

text \<open>
  The snapshot. A parsed route keeps the four keys the parser writes; a parsed route
  table has \<open>name\<close> and \<open>vpc_id\<close> optional, since the table the engine makes up
  for a VPC without any (\<open>{"id": "unknown", "routes": []}\<close>) has neither. The
  dictionaries that are only ever looked up by key are maps.
\<close>

record route =
  destination :: string
  target :: string
  core_network_arn :: "string option"
  state :: string

record route_table =
  rt_id :: string
  rt_name :: "string option"
  routes :: "route list"
  rt_vpc_id :: "string option"

record eni_data =
  eni_id :: string
  vpc_id :: string
  subnet_id :: string
  region :: string
  security_groups :: "string list"

record NetworkTopology =
  account_id :: string
  regions :: "string list"
  global_networks :: "aws_dict list"
  core_networks :: "core_network list"
  cwan_attachments :: "attachment list"
  cwan_policy :: cwan_policy
  tgws :: "string \<rightharpoonup> tgw list"
  tgw_route_tables :: "string \<rightharpoonup> aws_dict list"
  vpcs :: "string \<rightharpoonup> vpc list"
  route_tables :: "string \<rightharpoonup> route_table"
  eni_index :: "string \<rightharpoonup> eni_data"

definition new_topology :: "string \<Rightarrow> string list \<Rightarrow> NetworkTopology" where
  "new_topology acct rs =
     \<lparr> account_id = acct, regions = rs, global_networks = [], core_networks = [],
       cwan_attachments = [], cwan_policy = \<lparr> segment_actions = [] \<rparr>,
       tgws = Map.empty, tgw_route_tables = Map.empty, vpcs = Map.empty,
       route_tables = Map.empty, eni_index = Map.empty \<rparr>"

text \<open>The two cache files: namespace \<open>topology\<close> and namespace \<open>topology_markers\<close>.\<close>

record caches =
  topology_cache :: "NetworkTopology cache_file"
  markers_cache :: "json cache_file"

text \<open>\<open>a or b or ... or default\<close> over optional strings: the first truthy one.\<close>

fun first_truthy :: "string option list \<Rightarrow> string \<Rightarrow> string" where
  "first_truthy [] d = d"
| "first_truthy (None # xs) d = first_truthy xs d"
| "first_truthy (Some s # xs) d = (if s = [] then first_truthy xs d else s)"

text \<open>\<open>next((t["Value"] for t in tags if t["Key"] == "Name"), default)\<close>.\<close>

definition name_tag :: "(string \<times> string) list \<Rightarrow> string \<Rightarrow> string" where
  "name_tag tags d = (case map_of tags ''Name'' of None \<Rightarrow> d | Some v \<Rightarrow> v)"

definition get_or :: "'a option \<Rightarrow> 'a \<Rightarrow> 'a" where
  "get_or v d = (case v of None \<Rightarrow> d | Some x \<Rightarrow> x)"

text \<open>The route parser inside \<open>_discover_vpcs\<close>.\<close>

definition discovered_route :: "raw_route \<Rightarrow> route" where
  "discovered_route r =
     \<lparr> destination = get_or (DestinationCidrBlock r) [],
       target = first_truthy [GatewayId r, NatGatewayId r, RouteTransitGatewayId r,
                              RouteNetworkInterfaceId r] ''local'',
       core_network_arn = CoreNetworkArn r,
       state = get_or (State r) ''active'' \<rparr>"

definition discovered_route_table :: "raw_route_table \<Rightarrow> route_table" where
  "discovered_route_table rt =
     \<lparr> rt_id = RouteTableId rt, rt_name = Some (name_tag (RtTags rt) []),
       routes = map discovered_route (Routes rt), rt_vpc_id = Some (RtVpcId rt) \<rparr>"

text \<open>Indexing one route table by its subnet associations and as main table.\<close>

definition index_association ::
  "raw_route_table \<Rightarrow> association \<Rightarrow> (string \<rightharpoonup> route_table) \<Rightarrow> (string \<rightharpoonup> route_table)" where
  "index_association rt assoc m =
     (let m1 = (if truthy (SubnetId assoc)
                then m(the (SubnetId assoc) \<mapsto> discovered_route_table rt) else m)
      in if Main assoc = Some True
         then m1(''main:'' @ RtVpcId rt \<mapsto> discovered_route_table rt) else m1)"

definition index_route_table ::
  "raw_route_table \<Rightarrow> (string \<rightharpoonup> route_table) \<Rightarrow> (string \<rightharpoonup> route_table)" where
  "index_route_table rt m = fold (index_association rt) (Associations rt) m"

text \<open>
  \<open>asyncio.gather\<close> over one coroutine per region, without \<open>return_exceptions\<close>:
  an exception of any of them is raised to the awaiting caller. The regions write
  disjoint keys, so the model runs them in list order; which exception surfaces when
  several regions fail depends on the scheduling, and no theorem below depends on it.
\<close>

fun gather_regions ::
  "(string \<Rightarrow> NetworkTopology \<Rightarrow> error + NetworkTopology) \<Rightarrow> string list
     \<Rightarrow> NetworkTopology \<Rightarrow> error + NetworkTopology" where
  "gather_regions fetch_region [] t = Inr t"
| "gather_regions fetch_region (r # rs) t =
     (case fetch_region r t of
        Inl e \<Rightarrow> Inl e
      | Inr t' \<Rightarrow> gather_regions fetch_region rs t')"

text \<open>\<open>_discover_cloudwan\<close>.\<close>

definition discover_cloudwan :: "aws \<Rightarrow> NetworkTopology \<Rightarrow> error + NetworkTopology" where
  "discover_cloudwan api t =
     (case describe_global_networks api of
        Inl e \<Rightarrow> Inl e
      | Inr gns \<Rightarrow>
          (case list_core_networks api of
             Inl e \<Rightarrow> Inl e
           | Inr cns \<Rightarrow>
               (let t1 = t\<lparr> global_networks := gns, core_networks := cns \<rparr>
                in case cns of
                     [] \<Rightarrow> Inr t1
                   | cn # _ \<Rightarrow>
                       (case get_core_network_policy api (CoreNetworkId cn) of
                          Inl e \<Rightarrow> Inl e
                        | Inr policy_resp \<Rightarrow>
                            (case paginate_list_attachments api (CoreNetworkId cn) of
                               Inl e \<Rightarrow> Inl e
                             | Inr pages \<Rightarrow>
                                 Inr (t1\<lparr> cwan_policy :=
                                            get_or (PolicyDocument policy_resp)
                                                   \<lparr> segment_actions = [] \<rparr>,
                                          cwan_attachments :=
                                            cwan_attachments t1 @ concat pages \<rparr>))))))"

text \<open>\<open>_discover_tgws\<close>: the per-region fetch, then the gather.\<close>

fun tgw_route_tables_of ::
  "aws \<Rightarrow> string \<Rightarrow> tgw list \<Rightarrow> NetworkTopology \<Rightarrow> error + NetworkTopology" where
  "tgw_route_tables_of api r [] t = Inr t"
| "tgw_route_tables_of api r (g # gs) t =
     (case describe_transit_gateway_route_tables api r (TransitGatewayId g) of
        Inl e \<Rightarrow> Inl e
      | Inr rts \<Rightarrow>
          tgw_route_tables_of api r gs
            (t\<lparr> tgw_route_tables := (tgw_route_tables t)(TransitGatewayId g \<mapsto> rts) \<rparr>))"

definition fetch_tgws_region :: "aws \<Rightarrow> string \<Rightarrow> NetworkTopology \<Rightarrow> error + NetworkTopology" where
  "fetch_tgws_region api r t =
     (case describe_transit_gateways api r of
        Inl e \<Rightarrow> Inl e
      | Inr gs \<Rightarrow>
          if gs = [] then Inr t
          else tgw_route_tables_of api r gs (t\<lparr> tgws := (tgws t)(r \<mapsto> gs) \<rparr>))"

definition discover_tgws ::
  "aws \<Rightarrow> string list \<Rightarrow> NetworkTopology \<Rightarrow> error + NetworkTopology" where
  "discover_tgws api rs t = gather_regions (fetch_tgws_region api) rs t"

text \<open>\<open>_discover_vpcs\<close>.\<close>

definition fetch_vpcs_region :: "aws \<Rightarrow> string \<Rightarrow> NetworkTopology \<Rightarrow> error + NetworkTopology" where
  "fetch_vpcs_region api r t =
     (case describe_vpcs api r of
        Inl e \<Rightarrow> Inl e
      | Inr vs \<Rightarrow>
          if vs = [] then Inr t
          else (case describe_route_tables api r (map VpcId vs) of
                  Inl e \<Rightarrow> Inl e
                | Inr rts \<Rightarrow>
                    Inr (t\<lparr> vpcs := (vpcs t)(r \<mapsto> vs),
                            route_tables := fold index_route_table rts (route_tables t) \<rparr>)))"

definition discover_vpcs ::
  "aws \<Rightarrow> string list \<Rightarrow> NetworkTopology \<Rightarrow> error + NetworkTopology" where
  "discover_vpcs api rs t = gather_regions (fetch_vpcs_region api) rs t"

text \<open>\<open>_build_eni_index\<close>: every private address of every interface of every page.\<close>

definition index_eni :: "string \<Rightarrow> raw_eni \<Rightarrow> (string \<rightharpoonup> eni_data) \<Rightarrow> (string \<rightharpoonup> eni_data)" where
  "index_eni r eni m =
     fold (\<lambda>addr m'. if truthy addr
                      then m'(the addr \<mapsto> \<lparr> eni_id = NetworkInterfaceId eni, vpc_id = EniVpcId eni,
                                              subnet_id = EniSubnetId eni, region = r,
                                              security_groups = Groups eni \<rparr>)
                      else m')
          (PrivateIpAddresses eni) m"

definition fetch_enis_region :: "aws \<Rightarrow> string \<Rightarrow> NetworkTopology \<Rightarrow> error + NetworkTopology" where
  "fetch_enis_region api r t =
     (case paginate_describe_network_interfaces api r of
        Inl e \<Rightarrow> Inl e
      | Inr pages \<Rightarrow> Inr (t\<lparr> eni_index := fold (index_eni r) (concat pages) (eni_index t) \<rparr>))"

definition build_eni_index ::
  "aws \<Rightarrow> string list \<Rightarrow> NetworkTopology \<Rightarrow> error + NetworkTopology" where
  "build_eni_index api rs t = gather_regions (fetch_enis_region api) rs t"

text \<open>\<open>if not regions:\<close> asks the API for the regions when none are given.\<close>

definition discovery_regions :: "aws \<Rightarrow> string list option \<Rightarrow> error + string list" where
  "discovery_regions api regions_arg =
     (case regions_arg of
        None \<Rightarrow> describe_regions api
      | Some rs \<Rightarrow> if rs = [] then describe_regions api else Inr rs)"

text \<open>
  \<open>discover(regions)\<close>: the account, the regions, the three discoveries gathered,
  the address index, then the two cache writes. The result is the snapshot or the
  exception, with the cache files afterwards. The three gathered discoveries write
  different fields of the snapshot and are run one after the other here; as with the
  regions, an exception of any of them reaches the caller. The status callback only
  reports progress and is left out, and one clock reading \<open>now\<close> serves the whole
  call.
\<close>

definition discover ::
  "aws \<Rightarrow> int \<Rightarrow> int \<Rightarrow> string list option \<Rightarrow> caches \<Rightarrow> (error + NetworkTopology) \<times> caches" where
  "discover api now default_ttl regions_arg c =
     (case get_caller_identity api of
        Inl e \<Rightarrow> (Inl e, c)
      | Inr acct \<Rightarrow>
          (case discovery_regions api regions_arg of
             Inl e \<Rightarrow> (Inl e, c)
           | Inr rs \<Rightarrow>
               (case discover_cloudwan api (new_topology acct rs) of
                  Inl e \<Rightarrow> (Inl e, c)
                | Inr t1 \<Rightarrow>
               (case discover_tgws api rs t1 of
                  Inl e \<Rightarrow> (Inl e, c)
                | Inr t2 \<Rightarrow>
               (case discover_vpcs api rs t2 of
                  Inl e \<Rightarrow> (Inl e, c)
                | Inr t3 \<Rightarrow>
               (case build_eni_index api rs t3 of
                  Inl e \<Rightarrow> (Inl e, c)
                | Inr topology \<Rightarrow>
                    (Inr topology,
                     \<lparr> topology_cache = cache_set topology None (Some acct) now default_ttl,
                       markers_cache =
                         save_markers (get_current_markers api (Some (take 5 rs)))
                                      now default_ttl \<rparr>)))))))"

text \<open>
  \<open>get_cached(check_staleness)\<close>: the snapshot, \<open>None\<close>, or the exception of the
  identity call, with the cache files afterwards.
\<close>

definition get_cached ::
  "aws \<Rightarrow> int \<Rightarrow> bool \<Rightarrow> caches \<Rightarrow> (error + NetworkTopology option) \<times> caches" where
  "get_cached api now check_staleness c =
     (case get_caller_identity api of
        Inl e \<Rightarrow> (Inl e, c)
      | Inr acct \<Rightarrow>
          (let (d, f) = cache_get False (Some acct) now (topology_cache c);
               c' = c\<lparr> topology_cache := f \<rparr>
           in case d of
                None \<Rightarrow> (Inr None, c')
              | Some topology \<Rightarrow>
                  if check_staleness
                  then (case get_saved_markers now (markers_cache c') of
                          None \<Rightarrow> (Inr (Some topology), c')
                        | Some saved_markers \<Rightarrow>
                            if fst (is_stale api now (markers_cache c')
                                      (Some (take 5 (map fst (tgw_count saved_markers)))))
                            then (Inr None, c')
                            else (Inr (Some topology), c'))
                  else (Inr (Some topology), c')))"

definition clear_cache :: "caches \<Rightarrow> caches" where
  "clear_cache c = c\<lparr> topology_cache := cache_clear (topology_cache c) \<rparr>"

section \<open>traceroute/models.py\<close>

text \<open>
  A hop's \<open>detail\<close> dictionary maps a key to a string or to \<open>None\<close>. The
  \<open>security_checks\<close> list of a result is never written by the engine and is left out.
\<close>

record hop =
  seq :: int
  hop_type :: string
  hop_id :: string
  hop_name :: string
  hop_region :: string
  detail :: "(string \<times> string option) list"

record trace_result =
  src_ip :: string
  dst_ip :: string
  reachable :: bool
  hops :: "hop list"
  blocked_at :: "hop option"
  blocked_reason :: string

section \<open>traceroute/engine.py\<close>

subsection \<open>The standard library's addresses and networks\<close>

text \<open>
  What \<open>ipaddress\<close> hands to the engine: an address is a version with an integer of 32
  or 128 bits, a network a network address of that width with a prefix length.
  \<open>a in network\<close> is false across versions and otherwise compares the masked address
  with the network address. The two parsers \<open>ip_address\<close> and
  \<open>ip_network(..., strict=False)\<close> are parameters of the engine; \<open>None\<close> is their
  \<open>ValueError\<close>.
\<close>

datatype ip_addr = IPv4Address "32 word" | IPv6Address "128 word"

datatype ip_net = IPv4Network "32 word" nat | IPv6Network "128 word" nat

fun prefixlen :: "ip_net \<Rightarrow> nat" where
  "prefixlen (IPv4Network a p) = p"
| "prefixlen (IPv6Network a p) = p"

definition netmask :: "nat \<Rightarrow> 'a::len word" where
  "netmask p = (- 1) XOR drop_bit p (- 1)"

fun contains :: "ip_net \<Rightarrow> ip_addr \<Rightarrow> bool" where
  "contains (IPv4Network n p) (IPv4Address a) = (a AND netmask p = n)"
| "contains (IPv6Network n p) (IPv6Address a) = (a AND netmask p = n)"
| "contains _ _ = False"

record ipaddress =
  ip_address :: "string \<Rightarrow> ip_addr option"
  ip_network :: "string \<Rightarrow> ip_net option"

subsection \<open>Route selection\<close>

text \<open>
  The loop of \<open>_find_best_route\<close>, with \<open>best_match\<close> and \<open>best_prefix_len\<close> as
  accumulators; \<open>best_prefix_len\<close> starts at \<open>-1\<close>.
\<close>

fun best_route_loop ::
  "ipaddress \<Rightarrow> ip_addr \<Rightarrow> route list \<Rightarrow> route option \<Rightarrow> int \<Rightarrow> route option" where
  "best_route_loop lib dst [] best_match best_prefix_len = best_match"
| "best_route_loop lib dst (r # rs) best_match best_prefix_len =
     (if destination r = [] \<or> state r = ''blackhole''
      then best_route_loop lib dst rs best_match best_prefix_len
      else (case ip_network lib (destination r) of
              None \<Rightarrow> best_route_loop lib dst rs best_match best_prefix_len
            | Some network \<Rightarrow>
                if contains network dst \<and> int (prefixlen network) > best_prefix_len
                then best_route_loop lib dst rs (Some r) (int (prefixlen network))
                else best_route_loop lib dst rs best_match best_prefix_len))"

definition find_best_route :: "ipaddress \<Rightarrow> route list \<Rightarrow> string \<Rightarrow> error + route option" where
  "find_best_route lib rs dst_str =
     (case ip_address lib dst_str of
        None \<Rightarrow> Inl (ValueError dst_str)
      | Some dst \<Rightarrow> Inr (best_route_loop lib dst rs None (- 1)))"

subsection \<open>Resolving addresses\<close>

text \<open>
  \<open>ENIInfo\<close> is the index entry with the address added. The resolution functions are
  modelled for an engine whose \<open>_topology\<close> is set, as it is whenever \<open>trace\<close> calls
  them; they return the snapshot with the write-back to its address index.
\<close>

record ENIInfo = eni_data +
  ip :: string

definition eni_info :: "eni_data \<Rightarrow> string \<Rightarrow> ENIInfo" where
  "eni_info d addr =
     \<lparr> eni_id = eni_id d, vpc_id = vpc_id d, subnet_id = subnet_id d, region = region d,
       security_groups = security_groups d, ip = addr \<rparr>"

definition find_eni_in_region :: "aws \<Rightarrow> string \<Rightarrow> string \<Rightarrow> ENIInfo option" where
  "find_eni_in_region api addr r =
     (case describe_network_interfaces_by_ip api r addr of
        Inl e \<Rightarrow> None
      | Inr [] \<Rightarrow> None
      | Inr (eni # _) \<Rightarrow>
          Some \<lparr> eni_id = NetworkInterfaceId eni, vpc_id = EniVpcId eni,
                 subnet_id = EniSubnetId eni, region = r,
                 security_groups = Groups eni, ip = addr \<rparr>)"

definition priority :: "string list" where
  "priority = [''eu-west-1'', ''eu-west-2'', ''us-east-1'', ''us-west-2'']"

definition ordered_regions :: "string list \<Rightarrow> string list" where
  "ordered_regions rs = filter (\<lambda>r. r \<in> set rs) priority @ filter (\<lambda>r. r \<notin> set priority) rs"

fun search_regions :: "aws \<Rightarrow> string \<Rightarrow> string list \<Rightarrow> ENIInfo option" where
  "search_regions api addr [] = None"
| "search_regions api addr (r # rs) =
     (case find_eni_in_region api addr r of
        Some eni \<Rightarrow> Some eni
      | None \<Rightarrow> search_regions api addr rs)"

definition find_eni_api ::
  "aws \<Rightarrow> NetworkTopology \<Rightarrow> string \<Rightarrow> error + (ENIInfo option \<times> NetworkTopology)" where
  "find_eni_api api t addr =
     (case (if regions t = [] then describe_regions api else Inr (regions t)) of
        Inl e \<Rightarrow> Inl e
      | Inr rs \<Rightarrow>
          (case search_regions api addr (ordered_regions rs) of
             None \<Rightarrow> Inr (None, t)
           | Some result \<Rightarrow>
               Inr (Some result,
                    t\<lparr> eni_index := (eni_index t)
                         (addr \<mapsto> \<lparr> eni_id = eni_id result, vpc_id = vpc_id result,
                                    subnet_id = subnet_id result, region = region result,
                                    security_groups = security_groups result \<rparr>) \<rparr>)))"

definition find_eni_cached ::
  "aws \<Rightarrow> NetworkTopology \<Rightarrow> string \<Rightarrow> error + (ENIInfo option \<times> NetworkTopology)" where
  "find_eni_cached api t addr =
     (case eni_index t addr of
        Some d \<Rightarrow> Inr (Some (eni_info d addr), t)
      | None \<Rightarrow> find_eni_api api t addr)"

subsection \<open>Resolving the route table\<close>

definition get_route_table_cached :: "NetworkTopology \<Rightarrow> string \<Rightarrow> string \<Rightarrow> route_table option" where
  "get_route_table_cached t subnet v =
     (case route_tables t subnet of
        Some rt \<Rightarrow> Some rt
      | None \<Rightarrow> route_tables t (''main:'' @ v))"

text \<open>The engine's own \<open>_parse_route_table\<close>, which also reads the IPv6 destination.\<close>

definition parse_route :: "raw_route \<Rightarrow> route" where
  "parse_route r =
     \<lparr> destination = first_truthy [DestinationCidrBlock r, DestinationIpv6CidrBlock r] [],
       target = first_truthy [GatewayId r, NatGatewayId r, RouteTransitGatewayId r,
                              RouteNetworkInterfaceId r] ''local'',
       core_network_arn = CoreNetworkArn r,
       state = get_or (State r) ''active'' \<rparr>"

definition parse_route_table :: "raw_route_table \<Rightarrow> route_table" where
  "parse_route_table rt =
     \<lparr> rt_id = RouteTableId rt, rt_name = Some (name_tag (RtTags rt) []),
       routes = map parse_route (Routes rt), rt_vpc_id = None \<rparr>"

text \<open>
  The nested loops of \<open>_get_subnet_route_table\<close>. Scanning the associations of one
  table either hits the subnet (return that table) or ends, telling whether a main
  association was seen.
\<close>

datatype assoc_scan = SubnetHit | NoHit bool

fun scan_associations :: "string \<Rightarrow> association list \<Rightarrow> bool \<Rightarrow> assoc_scan" where
  "scan_associations subnet [] is_main = NoHit is_main"
| "scan_associations subnet (a # as) is_main =
     (if SubnetId a = Some subnet then SubnetHit
      else scan_associations subnet as (is_main \<or> Main a = Some True))"

fun scan_route_tables ::
  "string \<Rightarrow> raw_route_table list \<Rightarrow> raw_route_table option \<Rightarrow> route_table" where
  "scan_route_tables subnet [] main_rt =
     (case main_rt of
        Some rt \<Rightarrow> parse_route_table rt
      | None \<Rightarrow> \<lparr> rt_id = ''unknown'', rt_name = None, routes = [], rt_vpc_id = None \<rparr>)"
| "scan_route_tables subnet (rt # rest) main_rt =
     (case scan_associations subnet (Associations rt) False of
        SubnetHit \<Rightarrow> parse_route_table rt
      | NoHit is_main \<Rightarrow> scan_route_tables subnet rest (if is_main then Some rt else main_rt))"

definition get_subnet_route_table :: "aws \<Rightarrow> string \<Rightarrow> string \<Rightarrow> string \<Rightarrow> error + route_table" where
  "get_subnet_route_table api r v subnet =
     (case describe_route_tables api r [v] of
        Inl e \<Rightarrow> Inl e
      | Inr rts \<Rightarrow> Inr (scan_route_tables subnet rts None))"

subsection \<open>Cloud WAN and transit gateway paths\<close>

definition endswith :: "string \<Rightarrow> string \<Rightarrow> bool" where
  "endswith s suffix_str =
     (length suffix_str \<le> length s \<and> drop (length s - length suffix_str) s = suffix_str)"

text \<open>\<open>s.split("/")[-1]\<close>: what follows the last slash, or all of \<open>s\<close>.\<close>

definition last_part :: "string \<Rightarrow> string" where
  "last_part s = rev (takeWhile (\<lambda>c. c \<noteq> CHR ''/'') (rev s))"

text \<open>How an f-string prints an optional string.\<close>

definition py_str :: "string option \<Rightarrow> string" where
  "py_str v = get_or v ''None''"

fun segment_loop :: "attachment list \<Rightarrow> string \<Rightarrow> string \<Rightarrow> string option" where
  "segment_loop [] v r = None"
| "segment_loop (att # rest) v r =
     (if endswith (get_or (ResourceArn att) []) v \<and> EdgeLocation att = Some r
      then SegmentName att
      else segment_loop rest v r)"

definition get_segment_for_vpc :: "NetworkTopology \<Rightarrow> string \<Rightarrow> string \<Rightarrow> string option" where
  "get_segment_for_vpc t v r = segment_loop (cwan_attachments t) v r"

fun send_via_loop :: "segment_action list \<Rightarrow> string \<Rightarrow> string option \<Rightarrow> string option" where
  "send_via_loop [] src_segment dst_segment = None"
| "send_via_loop (a # rest) src_segment dst_segment =
     (if sa_action a = Some ''send-via'' \<and> sa_segment a = Some src_segment
      then (if (case when_sent_to_segments a of
                  AllSegments \<Rightarrow> True
                | SegmentList names \<Rightarrow>
                    (case dst_segment of None \<Rightarrow> False | Some d \<Rightarrow> d \<in> set names))
            then (case via_network_function_groups a of [] \<Rightarrow> None | n # _ \<Rightarrow> Some n)
            else send_via_loop rest src_segment dst_segment)
      else send_via_loop rest src_segment dst_segment)"

definition get_send_via_nfg :: "NetworkTopology \<Rightarrow> string \<Rightarrow> string option \<Rightarrow> string option" where
  "get_send_via_nfg t src_segment dst_segment =
     send_via_loop (segment_actions (cwan_policy t)) src_segment dst_segment"

text \<open>
  The loop over the attachments that appends one \<open>firewall\<close> hop for each attachment
  of the inspection group in the source's region; it carries \<open>hop_seq\<close> and the hops.
\<close>

definition serves :: "string \<Rightarrow> string \<Rightarrow> attachment \<Rightarrow> bool" where
  "serves nfg r att = (NetworkFunctionGroupName att = Some nfg \<and> EdgeLocation att = Some r)"

definition firewall_hop :: "attachment \<Rightarrow> int \<Rightarrow> hop" where
  "firewall_hop att hop_seq =
     \<lparr> seq = hop_seq, hop_type = ''firewall'',
       hop_id = last_part (get_or (ResourceArn att) []),
       hop_name = name_tag (Tags att) ''firewall'',
       hop_region = get_or (EdgeLocation att) [],
       detail = [(''attachment_id'', Some (AttachmentId att))] \<rparr>"

fun firewall_loop ::
  "attachment list \<Rightarrow> string \<Rightarrow> string \<Rightarrow> int \<Rightarrow> hop list \<Rightarrow> int \<times> hop list" where
  "firewall_loop [] nfg r hop_seq hs = (hop_seq, hs)"
| "firewall_loop (att # rest) nfg r hop_seq hs =
     (if serves nfg r att
      then firewall_loop rest nfg r (hop_seq + 1) (hs @ [firewall_hop att (hop_seq + 1)])
      else firewall_loop rest nfg r hop_seq hs)"

definition trace_via_cloudwan ::
  "NetworkTopology \<Rightarrow> trace_result \<Rightarrow> int \<Rightarrow> ENIInfo \<Rightarrow> ENIInfo \<Rightarrow> trace_result" where
  "trace_via_cloudwan t result hop_seq src_eni dst_eni =
     (let src_segment = get_segment_for_vpc t (vpc_id src_eni) (region src_eni);
          dst_segment = get_segment_for_vpc t (vpc_id dst_eni) (region dst_eni)
      in if \<not> truthy src_segment
         then result\<lparr> blocked_reason :=
                ''Source VPC '' @ vpc_id src_eni @ '' not attached to Cloud WAN'' \<rparr>
         else
           (let hop_seq1 = hop_seq + 1;
                hops1 = hops result @
                  [\<lparr> seq = hop_seq1, hop_type = ''cloud_wan_segment'',
                     hop_id = the src_segment, hop_name = ''segment:'' @ the src_segment,
                     hop_region = region src_eni, detail = [] \<rparr>];
                nfg = get_send_via_nfg t (the src_segment) dst_segment;
                (hop_seq2, hops2) =
                  (if truthy nfg
                   then firewall_loop (cwan_attachments t) (the nfg) (region src_eni)
                          (hop_seq1 + 1)
                          (hops1 @ [\<lparr> seq = hop_seq1 + 1, hop_type = ''nfg'',
                                       hop_id = the nfg, hop_name = ''inspection:'' @ the nfg,
                                       hop_region = region src_eni, detail = [] \<rparr>])
                   else (hop_seq1, hops1));
                (hop_seq3, hops3) =
                  (if region src_eni \<noteq> region dst_eni
                   then (hop_seq2 + 1,
                         hops2 @ [\<lparr> seq = hop_seq2 + 1, hop_type = ''cloud_wan_segment'',
                                     hop_id = (if truthy dst_segment then the dst_segment
                                               else ''unknown''),
                                     hop_name = ''segment:'' @ py_str dst_segment @ ''@''
                                                @ region dst_eni,
                                     hop_region = region dst_eni, detail = [] \<rparr>])
                   else (hop_seq2, hops2))
            in result\<lparr> hops := hops3 @
                         [\<lparr> seq = hop_seq3 + 1, hop_type = ''destination'',
                            hop_id = eni_id dst_eni, hop_name = ''dst:'' @ dst_ip result,
                            hop_region = region dst_eni,
                            detail = [(''vpc_id'', Some (vpc_id dst_eni)),
                                      (''segment'', dst_segment)] \<rparr>],
                       reachable := True \<rparr>))"

definition trace_via_tgw ::
  "trace_result \<Rightarrow> int \<Rightarrow> ENIInfo \<Rightarrow> ENIInfo \<Rightarrow> string \<Rightarrow> trace_result" where
  "trace_via_tgw result hop_seq src_eni dst_eni tgw_id =
     result\<lparr> hops := hops result @
                [\<lparr> seq = hop_seq + 1, hop_type = ''tgw'', hop_id = tgw_id,
                   hop_name = ''transit-gateway'', hop_region = region src_eni, detail = [] \<rparr>,
                 \<lparr> seq = hop_seq + 2, hop_type = ''destination'', hop_id = eni_id dst_eni,
                   hop_name = ''dst:'' @ dst_ip result, hop_region = region dst_eni,
                   detail = [] \<rparr>],
             reachable := True \<rparr>"

subsection \<open>The trace\<close>

text \<open>
  Step 4 of \<open>trace\<close>, the branch on the selected route: local within one VPC, Cloud
  WAN, transit gateway, anything else.
\<close>

definition next_hop ::
  "NetworkTopology \<Rightarrow> trace_result \<Rightarrow> int \<Rightarrow> ENIInfo \<Rightarrow> ENIInfo \<Rightarrow> route \<Rightarrow> trace_result" where
  "next_hop t result hop_seq src_eni dst_eni r =
     (if target r = ''local'' \<and> vpc_id src_eni = vpc_id dst_eni
      then result\<lparr> hops := hops result @
                      [\<lparr> seq = hop_seq + 1, hop_type = ''destination'',
                         hop_id = eni_id dst_eni, hop_name = ''dst:'' @ dst_ip result,
                         hop_region = region dst_eni, detail = [] \<rparr>],
                   reachable := True \<rparr>
      else if truthy (core_network_arn r)
      then trace_via_cloudwan t result hop_seq src_eni dst_eni
      else if target r \<noteq> [] \<and> take 4 (target r) = ''tgw-''
      then trace_via_tgw result hop_seq src_eni dst_eni (target r)
      else result\<lparr> blocked_reason := ''Unsupported route target: '' @ target r \<rparr>)"

text \<open>The hop that \<open>trace\<close> appends for the source interface and for its route table.\<close>

definition source_hop :: "string \<Rightarrow> ENIInfo \<Rightarrow> hop" where
  "source_hop src src_eni =
     \<lparr> seq = 1, hop_type = ''eni'', hop_id = eni_id src_eni, hop_name = ''src:'' @ src,
       hop_region = region src_eni,
       detail = [(''vpc_id'', Some (vpc_id src_eni)), (''subnet_id'', Some (subnet_id src_eni))] \<rparr>"

definition route_table_hop :: "route_table \<Rightarrow> ENIInfo \<Rightarrow> hop" where
  "route_table_hop src_rt src_eni =
     \<lparr> seq = 2, hop_type = ''route_table'', hop_id = rt_id src_rt,
       hop_name = get_or (rt_name src_rt) [], hop_region = region src_eni, detail = [] \<rparr>"

text \<open>
  Step 2: the route table of the source's subnet from the snapshot, or else from the
  API.
\<close>

definition source_route_table :: "aws \<Rightarrow> NetworkTopology \<Rightarrow> ENIInfo \<Rightarrow> error + route_table" where
  "source_route_table api t src_eni =
     (case get_route_table_cached t (subnet_id src_eni) (vpc_id src_eni) of
        Some rt \<Rightarrow> Inr rt
      | None \<Rightarrow> get_subnet_route_table api (region src_eni) (vpc_id src_eni)
                  (subnet_id src_eni))"

text \<open>
  Steps 1 to 3 on the loaded snapshot \<open>t\<close>: both addresses are looked up before
  either is tested, then the source hop, the route table and its hop, the route. The
  hop callback is called with each hop as it is appended and changes nothing; it is
  left out, the hops of the result being what it has seen.
\<close>

definition trace_steps ::
  "ipaddress \<Rightarrow> aws \<Rightarrow> NetworkTopology \<Rightarrow> string \<Rightarrow> string
     \<Rightarrow> (error + trace_result) \<times> NetworkTopology" where
  "trace_steps lib api t src dst =
     (let result = \<lparr> src_ip = src, dst_ip = dst, reachable = False, hops = [],
                     blocked_at = None, blocked_reason = [] \<rparr>
      in case find_eni_cached api t src of
           Inl e \<Rightarrow> (Inl e, t)
         | Inr (src_found, t1) \<Rightarrow>
        (case find_eni_cached api t1 dst of
           Inl e \<Rightarrow> (Inl e, t1)
         | Inr (dst_found, t2) \<Rightarrow>
        (case src_found of
           None \<Rightarrow> (Inr (result\<lparr> blocked_reason :=
                            ''Source IP '' @ src @ '' not found in topology'' \<rparr>), t2)
         | Some src_eni \<Rightarrow>
        (case dst_found of
           None \<Rightarrow> (Inr (result\<lparr> blocked_reason :=
                            ''Destination IP '' @ dst @ '' not found in topology'' \<rparr>), t2)
         | Some dst_eni \<Rightarrow>
        (let result1 = result\<lparr> hops := hops result @ [source_hop src src_eni] \<rparr>
         in case source_route_table api t2 src_eni of
              Inl e \<Rightarrow> (Inl e, t2)
            | Inr src_rt \<Rightarrow>
           (let result2 = result1\<lparr> hops := hops result1 @ [route_table_hop src_rt src_eni] \<rparr>
            in case find_best_route lib (routes src_rt) dst of
                 Inl e \<Rightarrow> (Inl e, t2)
               | Inr None \<Rightarrow>
                   (Inr (result2\<lparr> blocked_reason :=
                                    ''No route to '' @ dst @ '' in route table '' @ rt_id src_rt,
                                  blocked_at := Some (last (hops result2)) \<rparr>), t2)
               | Inr (Some r) \<Rightarrow> (Inr (next_hop t2 result2 2 src_eni dst_eni r), t2)))))))"

subsection \<open>Loading the snapshot\<close>

record engine =
  no_cache :: bool
  refresh_cache :: bool
  skip_stale_check :: bool
  topology :: "NetworkTopology option"

text \<open>
  \<open>_ensure_topology\<close>: the snapshot that \<open>self._topology\<close> holds afterwards, or the
  exception, with the cache files afterwards.
\<close>

definition ensure_topology ::
  "aws \<Rightarrow> int \<Rightarrow> int \<Rightarrow> engine \<Rightarrow> caches \<Rightarrow> (error + NetworkTopology) \<times> caches" where
  "ensure_topology api now default_ttl eng c =
     (case topology eng of
        Some t \<Rightarrow> (Inr t, c)
      | None \<Rightarrow>
          (let c1 = (if refresh_cache eng then clear_cache c else c)
           in if \<not> no_cache eng
              then (case get_cached api now (\<not> skip_stale_check eng) c1 of
                      (Inl e, c2) \<Rightarrow> (Inl e, c2)
                    | (Inr (Some t), c2) \<Rightarrow> (Inr t, c2)
                    | (Inr None, c2) \<Rightarrow> discover api now default_ttl None c2)
              else discover api now default_ttl None c1))"

text \<open>\<open>trace(src_ip, dst_ip)\<close>: the result or the exception, the engine and the caches.\<close>

definition trace ::
  "ipaddress \<Rightarrow> aws \<Rightarrow> int \<Rightarrow> int \<Rightarrow> engine \<Rightarrow> caches \<Rightarrow> string \<Rightarrow> string
     \<Rightarrow> (error + trace_result) \<times> engine \<times> caches" where
  "trace lib api now default_ttl eng c src dst =
     (case ensure_topology api now default_ttl eng c of
        (Inl e, c') \<Rightarrow> (Inl e, eng, c')
      | (Inr t, c') \<Rightarrow>
          (let (res, t') = trace_steps lib api t src dst
           in (res, eng\<lparr> topology := Some t' \<rparr>, c')))"

subsection \<open>Dotted-quad notation\<close>

text \<open>
  An instance of the two parsers for IPv4 in dotted-quad notation, with the prefix
  length after a slash: four decimal octets of at most three digits, without leading
  zeros, each at most 255; a prefix length of at most 32, or none for a host network;
  host bits are masked off, as \<open>strict=False\<close> does. The concrete runs of the engine
  below use it; the general theorems hold for every pair of parsers.
\<close>

fun split_on :: "char \<Rightarrow> string \<Rightarrow> string list" where
  "split_on c [] = [[]]"
| "split_on c (x # xs) =
     (if x = c then [] # split_on c xs
      else (case split_on c xs of
              [] \<Rightarrow> [[x]]
            | w # ws \<Rightarrow> (x # w) # ws))"

definition is_digit :: "char \<Rightarrow> bool" where
  "is_digit ch = (ch \<in> set ''0123456789'')"

definition decimal :: "string \<Rightarrow> nat option" where
  "decimal s =
     (if s = [] \<or> \<not> list_all is_digit s then None
      else Some (foldl (\<lambda>n ch. 10 * n + (of_char ch - 48)) 0 s))"

definition octet :: "string \<Rightarrow> nat option" where
  "octet s =
     (if length s > 3 \<or> (length s > 1 \<and> hd s = CHR ''0'') then None
      else (case decimal s of
              None \<Rightarrow> None
            | Some n \<Rightarrow> if n \<le> 255 then Some n else None))"

definition dotted_quad :: "string \<Rightarrow> 32 word option" where
  "dotted_quad s =
     (case map octet (split_on CHR ''.'' s) of
        [Some a, Some b, Some c, Some d] \<Rightarrow>
          Some (word_of_nat (((a * 256 + b) * 256 + c) * 256 + d))
      | _ \<Rightarrow> None)"

definition ipv4_address :: "string \<Rightarrow> ip_addr option" where
  "ipv4_address s = map_option IPv4Address (dotted_quad s)"

definition ipv4_network :: "string \<Rightarrow> ip_net option" where
  "ipv4_network s =
     (case split_on CHR ''/'' s of
        [a] \<Rightarrow> map_option (\<lambda>w. IPv4Network w 32) (dotted_quad a)
      | [a, p] \<Rightarrow>
          (case (dotted_quad a, decimal p) of
             (Some w, Some n) \<Rightarrow>
               if n \<le> 32 then Some (IPv4Network (w AND netmask n) n) else None
           | _ \<Rightarrow> None)
      | _ \<Rightarrow> None)"

definition ipv4 :: ipaddress where
  "ipv4 = \<lparr> ip_address = ipv4_address, ip_network = ipv4_network \<rparr>"

section \<open>The properties, in the specification's terms\<close>

subsection \<open>Route selection\<close>

text \<open>
  A route is a candidate for an address when it has a destination, is not a blackhole,
  and its destination parses to a network that contains the address.
\<close>

definition candidate :: "ipaddress \<Rightarrow> ip_addr \<Rightarrow> route \<Rightarrow> bool" where
  "candidate lib a r =
     (destination r \<noteq> [] \<and> state r \<noteq> ''blackhole'' \<and>
      (case ip_network lib (destination r) of
         None \<Rightarrow> False
       | Some n \<Rightarrow> contains n a))"

definition route_prefixlen :: "ipaddress \<Rightarrow> route \<Rightarrow> nat" where
  "route_prefixlen lib r =
     (case ip_network lib (destination r) of None \<Rightarrow> 0 | Some n \<Rightarrow> prefixlen n)"

text \<open>
  \<open>r\<close> sits in \<open>rs\<close> at a position where every candidate before it has a strictly
  shorter prefix and every candidate after it a prefix that is not longer: the
  earliest candidate of maximal prefix length.
\<close>

definition earliest_longest :: "ipaddress \<Rightarrow> ip_addr \<Rightarrow> route list \<Rightarrow> route \<Rightarrow> bool" where
  "earliest_longest lib a rs r =
     (\<exists>before after.
        rs = before @ r # after \<and> candidate lib a r \<and>
        (\<forall>x \<in> set before. candidate lib a x \<longrightarrow> route_prefixlen lib x < route_prefixlen lib r) \<and>
        (\<forall>x \<in> set after. candidate lib a x \<longrightarrow> route_prefixlen lib x \<le> route_prefixlen lib r))"

subsection \<open>Staleness signals\<close>

text \<open>
  What the code takes for a change of each field: a policy version observed on both
  sides, an attachment count positive on both sides, a region's count present on both
  sides (zero included), and the two values different.
\<close>

definition policy_changed :: "ChangeMarkers \<Rightarrow> ChangeMarkers \<Rightarrow> bool" where
  "policy_changed saved current =
     (case (cwan_policy_version saved, cwan_policy_version current) of
        (Some sv, Some cv) \<Rightarrow> sv \<noteq> cv
      | _ \<Rightarrow> False)"

definition attachments_changed :: "ChangeMarkers \<Rightarrow> ChangeMarkers \<Rightarrow> bool" where
  "attachments_changed saved current =
     (cwan_attachment_count saved > 0 \<and> cwan_attachment_count current > 0 \<and>
      cwan_attachment_count saved \<noteq> cwan_attachment_count current)"

definition count_changed :: "(string \<times> int) list \<Rightarrow> string \<times> int \<Rightarrow> bool" where
  "count_changed saved_counts rc =
     (case map_of saved_counts (fst rc) of None \<Rightarrow> False | Some sc \<Rightarrow> sc \<noteq> snd rc)"

definition change_reason :: "ChangeMarkers \<Rightarrow> ChangeMarkers \<Rightarrow> stale_reason" where
  "change_reason saved current =
     (if policy_changed saved current
      then PolicyChanged (the (cwan_policy_version saved)) (the (cwan_policy_version current))
      else if attachments_changed saved current
      then AttachmentCountChanged (cwan_attachment_count saved) (cwan_attachment_count current)
      else (case find (count_changed (tgw_count saved)) (tgw_count current) of
              Some (r, c) \<Rightarrow> TgwCountChanged r (the (map_of (tgw_count saved) r)) c
            | None \<Rightarrow>
                (case find (count_changed (vpc_count saved)) (vpc_count current) of
                   Some (r, c) \<Rightarrow> VpcCountChanged r (the (map_of (vpc_count saved) r)) c
                 | None \<Rightarrow> NoChangesDetected)))"

text \<open>
  The stricter reading, under which a value of zero on either side never counts: a
  change of some field whose saved and current values are both present and non-zero.
\<close>

definition nonzero_count_changed :: "(string \<times> int) list \<Rightarrow> string \<times> int \<Rightarrow> bool" where
  "nonzero_count_changed saved_counts rc =
     (case map_of saved_counts (fst rc) of
        None \<Rightarrow> False
      | Some sc \<Rightarrow> sc \<noteq> 0 \<and> snd rc \<noteq> 0 \<and> sc \<noteq> snd rc)"

definition nonzero_change :: "ChangeMarkers \<Rightarrow> ChangeMarkers \<Rightarrow> bool" where
  "nonzero_change saved current =
     ((case (cwan_policy_version saved, cwan_policy_version current) of
         (Some sv, Some cv) \<Rightarrow> sv \<noteq> 0 \<and> cv \<noteq> 0 \<and> sv \<noteq> cv
       | _ \<Rightarrow> False) \<or>
      attachments_changed saved current \<or>
      list_ex (nonzero_count_changed (tgw_count saved)) (tgw_count current) \<or>
      list_ex (nonzero_count_changed (vpc_count saved)) (vpc_count current))"

subsection \<open>Failing fetches and unresolved addresses\<close>

text \<open>
  A discovery unit fails when one of the API calls it makes raises: for Cloud WAN the
  two listings and, when there is a core network, its policy and attachments; for a
  region the transit gateway listing and the route table listing of each gateway, the
  VPC listing and, when there are VPCs, their route tables, and the interface listing.
\<close>

definition cloudwan_fetch_fails :: "aws \<Rightarrow> bool" where
  "cloudwan_fetch_fails api =
     (isl (describe_global_networks api) \<or>
      (case list_core_networks api of
         Inl e \<Rightarrow> True
       | Inr [] \<Rightarrow> False
       | Inr (cn # _) \<Rightarrow>
           isl (get_core_network_policy api (CoreNetworkId cn)) \<or>
           isl (paginate_list_attachments api (CoreNetworkId cn))))"

definition tgw_fetch_fails :: "aws \<Rightarrow> string \<Rightarrow> bool" where
  "tgw_fetch_fails api r =
     (case describe_transit_gateways api r of
        Inl e \<Rightarrow> True
      | Inr gs \<Rightarrow>
          list_ex (\<lambda>g. isl (describe_transit_gateway_route_tables api r (TransitGatewayId g))) gs)"

definition vpc_fetch_fails :: "aws \<Rightarrow> string \<Rightarrow> bool" where
  "vpc_fetch_fails api r =
     (case describe_vpcs api r of
        Inl e \<Rightarrow> True
      | Inr vs \<Rightarrow> vs \<noteq> [] \<and> isl (describe_route_tables api r (map VpcId vs)))"

definition region_fetch_fails :: "aws \<Rightarrow> string \<Rightarrow> bool" where
  "region_fetch_fails api r =
     (tgw_fetch_fails api r \<or> vpc_fetch_fails api r \<or>
      isl (paginate_describe_network_interfaces api r))"

text \<open>
  An address resolves to no interface record: it is not in the snapshot's address
  index, the regions of the live search are known, and the search finds it in none.
\<close>

definition unresolved :: "aws \<Rightarrow> NetworkTopology \<Rightarrow> string \<Rightarrow> bool" where
  "unresolved api t addr =
     (eni_index t addr = None \<and>
      (case (if regions t = [] then describe_regions api else Inr (regions t)) of
         Inl e \<Rightarrow> False
       | Inr rs \<Rightarrow> list_all (\<lambda>r. find_eni_in_region api addr r = None) rs))"

section \<open>A small network\<close>

text \<open>
  The concrete runs below use one account with one region in its snapshot. VPC
  \<open>vpc-a\<close> (10.0.0.0/16) holds the source 10.0.1.5; its route table has the local
  route, a more specific route to a firewall interface, a Cloud WAN route to
  \<open>vpc-b\<close>, a transit gateway route, a peering route, a Cloud WAN route for part of
  \<open>vpc-a\<close>'s own range, and a blackhole. As the route parsers leave them, the Cloud
  WAN and peering routes have target \<open>local\<close>. \<open>vpc-a\<close> is attached to segment
  \<open>prod\<close>, \<open>vpc-b\<close> to \<open>shared\<close>, and one firewall attachment serves the
  inspection group \<open>inspection\<close>.
\<close>

definition rt_a :: route_table where
  "rt_a =
     \<lparr> rt_id = ''rtb-a'', rt_name = Some ''private-a'',
       routes =
         [\<lparr> destination = ''10.0.0.0/16'', target = ''local'',
             core_network_arn = None, state = ''active'' \<rparr>,
          \<lparr> destination = ''10.0.2.0/24'', target = ''eni-0fw'',
             core_network_arn = None, state = ''active'' \<rparr>,
          \<lparr> destination = ''10.1.0.0/16'', target = ''local'',
             core_network_arn = Some ''arn:aws:networkmanager::111122223333:core-network/cn-1'',
             state = ''active'' \<rparr>,
          \<lparr> destination = ''10.2.0.0/16'', target = ''tgw-1'',
             core_network_arn = None, state = ''active'' \<rparr>,
          \<lparr> destination = ''10.3.0.0/16'', target = ''local'',
             core_network_arn = None, state = ''active'' \<rparr>,
          \<lparr> destination = ''10.0.4.0/24'', target = ''local'',
             core_network_arn = Some ''arn:aws:networkmanager::111122223333:core-network/cn-1'',
             state = ''active'' \<rparr>,
          \<lparr> destination = ''172.16.0.0/12'', target = ''local'',
             core_network_arn = None, state = ''blackhole'' \<rparr>],
       rt_vpc_id = Some ''vpc-a'' \<rparr>"

text \<open>
  A route list with a tie: two /16 routes cover 10.0.1.9, after a shorter /8 and before
  a longer /24 that is a blackhole.
\<close>

definition routes_tie :: "route list" where
  "routes_tie =
     [\<lparr> destination = ''10.0.0.0/8'', target = ''tgw-1'',
         core_network_arn = None, state = ''active'' \<rparr>,
      \<lparr> destination = ''10.0.0.0/16'', target = ''local'',
         core_network_arn = None, state = ''active'' \<rparr>,
      \<lparr> destination = ''10.0.0.0/16'', target = ''eni-0fw'',
         core_network_arn = None, state = ''active'' \<rparr>,
      \<lparr> destination = ''10.0.1.0/24'', target = ''tgw-2'',
         core_network_arn = None, state = ''blackhole'' \<rparr>]"

definition eni_in :: "string \<Rightarrow> string \<Rightarrow> string \<Rightarrow> eni_data" where
  "eni_in e v s =
     \<lparr> eni_id = e, vpc_id = v, subnet_id = s, region = ''eu-west-1'', security_groups = [] \<rparr>"

definition attachments_a :: "attachment list" where
  "attachments_a =
     [\<lparr> AttachmentId = ''attachment-a'',
        ResourceArn = Some ''arn:aws:ec2:eu-west-1:111122223333:vpc/vpc-a'',
        EdgeLocation = Some ''eu-west-1'', SegmentName = Some ''prod'',
        NetworkFunctionGroupName = None, Tags = [] \<rparr>,
      \<lparr> AttachmentId = ''attachment-b'',
        ResourceArn = Some ''arn:aws:ec2:eu-west-1:111122223333:vpc/vpc-b'',
        EdgeLocation = Some ''eu-west-1'', SegmentName = Some ''shared'',
        NetworkFunctionGroupName = None, Tags = [] \<rparr>,
      \<lparr> AttachmentId = ''attachment-fw'',
        ResourceArn = Some ''arn:aws:ec2:eu-west-1:111122223333:vpc/vpc-fw'',
        EdgeLocation = Some ''eu-west-1'', SegmentName = None,
        NetworkFunctionGroupName = Some ''inspection'', Tags = [(''Name'', ''fw-eu'')] \<rparr>]"

definition policy_a :: cwan_policy where
  "policy_a =
     \<lparr> segment_actions =
         [\<lparr> sa_action = Some ''send-via'', sa_segment = Some ''prod'',
             when_sent_to_segments = AllSegments,
             via_network_function_groups = [''inspection''] \<rparr>] \<rparr>"

definition topology_a :: NetworkTopology where
  "topology_a =
     (new_topology ''111122223333'' [''eu-west-1''])
       \<lparr> cwan_attachments := attachments_a,
         cwan_policy := policy_a,
         route_tables := [''subnet-a'' \<mapsto> rt_a],
         eni_index :=
           [''10.0.1.5'' \<mapsto> eni_in ''eni-a5'' ''vpc-a'' ''subnet-a'',
            ''10.0.1.9'' \<mapsto> eni_in ''eni-a9'' ''vpc-a'' ''subnet-a'',
            ''10.0.2.9'' \<mapsto> eni_in ''eni-a29'' ''vpc-a'' ''subnet-a2'',
            ''10.0.4.9'' \<mapsto> eni_in ''eni-a49'' ''vpc-a'' ''subnet-a4'',
            ''10.1.0.7'' \<mapsto> eni_in ''eni-b7'' ''vpc-b'' ''subnet-b'',
            ''10.3.0.9'' \<mapsto> eni_in ''eni-d9'' ''vpc-d'' ''subnet-d'',
            ''172.16.0.1'' \<mapsto> eni_in ''eni-c1'' ''vpc-c'' ''subnet-c''] \<rparr>"

text \<open>
  The API of that account: policy version 3, the three attachments, one transit
  gateway and two VPCs in \<open>eu-west-1\<close>, and no interface found by any live search.
\<close>

definition api_a :: aws where
  "api_a =
     \<lparr> get_caller_identity = Inr ''111122223333'',
       describe_regions = Inr [''eu-west-1'', ''us-east-1''],
       describe_global_networks = Inr [],
       list_core_networks = Inr [\<lparr> CoreNetworkId = ''cn-1'' \<rparr>],
       get_core_network_policy =
         (\<lambda>cn. Inr \<lparr> PolicyVersionId = Some 3, PolicyDocument = Some policy_a \<rparr>),
       list_attachments = (\<lambda>cn. Inr attachments_a),
       paginate_list_attachments = (\<lambda>cn. Inr [attachments_a]),
       describe_transit_gateways =
         (\<lambda>r. Inr (if r = ''eu-west-1'' then [\<lparr> TransitGatewayId = ''tgw-1'' \<rparr>] else [])),
       describe_transit_gateway_route_tables = (\<lambda>r g. Inr []),
       describe_vpcs =
         (\<lambda>r. Inr (if r = ''eu-west-1''
                     then [\<lparr> VpcId = ''vpc-a'' \<rparr>, \<lparr> VpcId = ''vpc-b'' \<rparr>] else [])),
       describe_route_tables = (\<lambda>r vs. Inr []),
       paginate_describe_network_interfaces = (\<lambda>r. Inr []),
       describe_network_interfaces_by_ip = (\<lambda>r a. Inr []) \<rparr>"

text \<open>The same API with the transit gateway listing of \<open>us-east-1\<close> failing.\<close>

definition api_failing :: aws where
  "api_failing =
     api_a\<lparr> describe_transit_gateways :=
              (\<lambda>r. if r = ''us-east-1'' then Inl (ClientError ''DescribeTransitGateways'')
                    else describe_transit_gateways api_a r) \<rparr>"

definition engine_a :: engine where
  "engine_a = \<lparr> no_cache = False, refresh_cache = False, skip_stale_check = False,
                topology = Some topology_a \<rparr>"

text \<open>
  Cache files: the snapshot cached one minute before the clock reading 60000000 with
  the default TTL of 900 seconds, without markers and with markers that recorded no
  transit gateway in \<open>eu-west-1\<close>.
\<close>

definition markers_zero_tgw :: ChangeMarkers where
  "markers_zero_tgw =
     \<lparr> cwan_policy_version = Some 3, cwan_attachment_count = 3,
       tgw_count = [(''eu-west-1'', 0)], vpc_count = [(''eu-west-1'', 2)] \<rparr>"

definition caches_without_markers :: caches where
  "caches_without_markers =
     \<lparr> topology_cache = cache_set topology_a None (Some ''111122223333'') 0 900,
       markers_cache = Missing \<rparr>"

definition no_caches :: caches where
  "no_caches = \<lparr> topology_cache = Missing, markers_cache = Missing \<rparr>"


section \<open>Theorems\<close>

subsection \<open>Saved markers\<close>

lemma int_items_map: "int_items (map (\<lambda>(r, c). (r, JInt c)) xs) = xs"
  by (induction xs) auto

lemma from_dict_to_dict: "from_dict (to_dict m) = m"
  by (cases m) (simp add: from_dict_def to_dict_def int_items_map split: option.splits)

lemma get_saved_after_save:
  "get_saved_markers now' (save_markers m now default_ttl) = Some m"
  by (simp add: get_saved_markers_def save_markers_def cache_set_def cache_get_def
        from_dict_to_dict) (simp add: to_dict_def)

text \<open>
  Claim C10. Whatever markers are saved, \<open>get_saved_markers\<close> returns them at every
  later clock reading \<open>now'\<close>: the record is read with expiry ignored. The record
  carries no account id, so a read of the markers file returns the saved dictionary
  for every current account \<open>acct\<close> a reader could pass, and
  \<open>get_saved_markers\<close> passes none.
\<close>

theorem saved_markers_round_trip:
  "get_saved_markers now' (save_markers m now default_ttl) = Some m \<and>
   fst (cache_get True acct now' (save_markers m now default_ttl)) = Some (to_dict m)"
  by (simp add: get_saved_after_save) (simp add: save_markers_def cache_set_def cache_get_def)

subsection \<open>The staleness verdict\<close>

lemma first_changed_find:
  "first_changed cur saved =
     map_option (\<lambda>(r, c). (r, the (map_of saved r), c)) (find (count_changed saved) cur)"
  by (induction cur saved rule: first_changed.induct)
     (auto simp: count_changed_def split: option.splits)

lemma find_None_list_ex: "(find P xs = None) = (\<not> list_ex P xs)"
  by (induction xs) auto

lemma is_stale_verdict:
  assumes "get_saved_markers now f = Some saved"
  shows "is_stale api now f rgs =
           (let current = get_current_markers api rgs
            in (policy_changed saved current \<or> attachments_changed saved current \<or>
                list_ex (count_changed (tgw_count saved)) (tgw_count current) \<or>
                list_ex (count_changed (vpc_count saved)) (vpc_count current),
                change_reason saved current))"
proof -
  define current where "current = get_current_markers api rgs"
  have tg: "(find (count_changed (tgw_count saved)) (tgw_count current) = None)
              = (\<not> list_ex (count_changed (tgw_count saved)) (tgw_count current))"
    by (rule find_None_list_ex)
  have vp: "(find (count_changed (vpc_count saved)) (vpc_count current) = None)
              = (\<not> list_ex (count_changed (vpc_count saved)) (vpc_count current))"
    by (rule find_None_list_ex)
  show ?thesis
    unfolding is_stale_def assms Let_def current_def [symmetric] option.case
    using tg vp
    by (cases "cwan_policy_version saved"; cases "cwan_policy_version current";
        cases "find (count_changed (tgw_count saved)) (tgw_count current)";
        cases "find (count_changed (vpc_count saved)) (vpc_count current)")
       (auto simp: first_changed_find policy_changed_def attachments_changed_def
          change_reason_def)
qed


text \<open>
  Claim C4, as amended. With saved markers present, the verdict of \<open>is_stale\<close> is
  stale exactly when some field changed between two present observations: the policy
  version set on both sides, the attachment count positive on both sides, a region's
  transit gateway or VPC count recorded on both sides, where a recorded count of zero is
  a present observation. The reason is that of the first changed field in the order
  policy version, attachment count, transit gateway counts, VPC counts, and within the
  counts that of the first changed region of the current markers. When the saved
  markers hold no observation at all (no policy version, no attachments, no region),
  the verdict is not stale whatever the current markers are.
\<close>

theorem is_stale_present_fields:
  assumes "get_saved_markers now f = Some saved"
  shows "is_stale api now f rgs =
           (let current = get_current_markers api rgs
            in (policy_changed saved current \<or> attachments_changed saved current \<or>
                list_ex (count_changed (tgw_count saved)) (tgw_count current) \<or>
                list_ex (count_changed (vpc_count saved)) (vpc_count current),
                change_reason saved current)) \<and>
         (cwan_policy_version saved = None \<and> cwan_attachment_count saved = 0 \<and>
          tgw_count saved = [] \<and> vpc_count saved = []
          \<longrightarrow> is_stale api now f rgs = (False, NoChangesDetected))"
proof -
  have absent: "\<not> list_ex (count_changed []) xs" for xs :: "(string \<times> int) list"
    by (induction xs) (simp_all add: count_changed_def)
  have absent_find: "find (count_changed []) xs = None" for xs :: "(string \<times> int) list"
    by (induction xs) (simp_all add: count_changed_def)
  show ?thesis
    unfolding is_stale_verdict [OF assms]
    by (simp add: Let_def policy_changed_def attachments_changed_def change_reason_def
          absent absent_find)
qed

lemma current_markers_a:
  "get_current_markers api_a (Some [''eu-west-1'']) =
     \<lparr> cwan_policy_version = Some 3, cwan_attachment_count = 3,
       tgw_count = [(''eu-west-1'', 1)], vpc_count = [(''eu-west-1'', 2)] \<rparr>"
  by (simp add: get_current_markers_def cwan_markers_def api_a_def new_markers_def
        attachments_a_def)

text \<open>
  On the small network the saved markers recorded no transit gateway in
  \<open>eu-west-1\<close>, where there is one now; and saved markers without any
  observation give no stale verdict.
\<close>

theorem is_stale_present_fields_witness:
  "is_stale api_a 60000000 (save_markers markers_zero_tgw 0 900) (Some [''eu-west-1''])
     = (True, TgwCountChanged ''eu-west-1'' 0 1) \<and>
   is_stale api_a 60000000 (save_markers new_markers 0 900) (Some [''eu-west-1''])
     = (False, NoChangesDetected)"
proof -
  from is_stale_present_fields [OF get_saved_after_save,
      of api_a 60000000 markers_zero_tgw 0 900 "Some [''eu-west-1'']"]
  have "is_stale api_a 60000000 (save_markers markers_zero_tgw 0 900) (Some [''eu-west-1''])
          = (True, TgwCountChanged ''eu-west-1'' 0 1)"
    by (simp add: current_markers_a markers_zero_tgw_def policy_changed_def
          attachments_changed_def count_changed_def change_reason_def)
  moreover
  have saved: "get_saved_markers 60000000 (save_markers new_markers 0 900) = Some new_markers"
    by (rule get_saved_after_save)
  from is_stale_present_fields [where api = api_a and rgs = "Some [''eu-west-1'']",
      OF saved, THEN conjunct2]
  have "is_stale api_a 60000000 (save_markers new_markers 0 900) (Some [''eu-west-1''])
          = (False, NoChangesDetected)"
    by (simp add: new_markers_def)
  ultimately show ?thesis by simp
qed

text \<open>
  Claim C4 as stated fails there: the verdict is stale although no field has two
  non-zero values that differ, the saved transit gateway count being zero.
\<close>

theorem is_stale_zero_count_counterexample:
  "fst (is_stale api_a 60000000 (save_markers markers_zero_tgw 0 900) (Some [''eu-west-1'']))
   \<and> \<not> nonzero_change markers_zero_tgw (get_current_markers api_a (Some [''eu-west-1'']))"
  by (simp add: is_stale_def get_saved_after_save current_markers_a)
     (simp add: markers_zero_tgw_def nonzero_change_def attachments_changed_def
        nonzero_count_changed_def)

subsection \<open>The cached snapshot\<close>

text \<open>
  Claim C3, as amended. With a snapshot cached for the current account and not expired,
  and no markers file, \<open>get_cached\<close> returns the cached snapshot whether or not
  the staleness check is requested: the check is run only when saved markers exist.
  The cache files are left as they were.
\<close>

theorem get_cached_without_markers:
  assumes "get_caller_identity api = Inr acct"
      and "topology_cache c = Stored raw"
      and "cached_account_id raw = Some acct"
      and "now - cached_at raw \<le> ttl_seconds raw * 1000000"
      and "markers_cache c = Missing"
  shows "get_cached api now check_staleness c = (Inr (Some (data raw)), c)"
proof -
  from assms(2) have "c\<lparr> topology_cache := Stored raw \<rparr> = c"
    by (cases c) simp
  with assms show ?thesis
    by (simp add: get_cached_def cache_get_def get_saved_markers_def Let_def)
qed

theorem get_cached_without_markers_witness:
  "get_cached api_a 60000000 True caches_without_markers
     = (Inr (Some topology_a), caches_without_markers)"
  using get_cached_without_markers [of api_a "''111122223333''" caches_without_markers
      "\<lparr> data = topology_a, cached_at = 0, ttl_seconds = 900,
         cached_account_id = Some ''111122223333'' \<rparr>" 60000000 True]
  by (simp add: api_a_def caches_without_markers_def cache_set_def)

text \<open>
  Claim C3 as stated fails on the small network: no markers were saved, the staleness
  check is requested, and the cached snapshot is returned, not \<open>None\<close>.
\<close>

theorem get_cached_without_markers_counterexample:
  "markers_cache caches_without_markers = Missing \<and>
   fst (get_cached api_a 60000000 True caches_without_markers) = Inr (Some topology_a) \<and>
   fst (get_cached api_a 60000000 True caches_without_markers) \<noteq> Inr None"
  by (simp add: get_cached_def cache_get_def get_saved_markers_def api_a_def
        caches_without_markers_def cache_set_def Let_def)

subsection \<open>Discovery\<close>

text \<open>A gather over the regions raises exactly when the fetch of some region does.\<close>

lemma gather_regions_isl:
  assumes "\<And>r t. isl (fetch r t) = fails r"
  shows "isl (gather_regions fetch rs t) = (\<exists>r \<in> set rs. fails r)"
proof (induction rs arbitrary: t)
  case Nil
  show ?case by simp
next
  case (Cons a rs)
  show ?case
  proof (cases "fetch a t")
    case (Inl e)
    with assms [of a t] show ?thesis by simp
  next
    case (Inr t')
    with assms [of a t] Cons.IH [of t'] show ?thesis by simp
  qed
qed

lemma tgw_route_tables_of_isl:
  "isl (tgw_route_tables_of api r gs t) =
     list_ex (\<lambda>g. isl (describe_transit_gateway_route_tables api r (TransitGatewayId g))) gs"
  by (induction gs arbitrary: t) (auto split: sum.splits)

lemma fetch_tgws_region_isl: "isl (fetch_tgws_region api r t) = tgw_fetch_fails api r"
  by (auto simp: fetch_tgws_region_def tgw_fetch_fails_def tgw_route_tables_of_isl
      split: sum.splits)

lemma fetch_vpcs_region_isl: "isl (fetch_vpcs_region api r t) = vpc_fetch_fails api r"
  by (auto simp: fetch_vpcs_region_def vpc_fetch_fails_def split: sum.splits)

lemma fetch_enis_region_isl:
  "isl (fetch_enis_region api r t) = isl (paginate_describe_network_interfaces api r)"
  by (auto simp: fetch_enis_region_def split: sum.splits)

lemma discover_cloudwan_isl: "isl (discover_cloudwan api t) = cloudwan_fetch_fails api"
  by (auto simp: discover_cloudwan_def cloudwan_fetch_fails_def Let_def
      split: sum.splits list.splits)

text \<open>
  With the account and the regions known, \<open>discover\<close> raises exactly when some unit
  fails, and then leaves the cache files alone.
\<close>

lemma discover_isl:
  assumes "get_caller_identity api = Inr acct"
      and "discovery_regions api regions_arg = Inr rs"
  shows "isl (fst (discover api now default_ttl regions_arg c)) =
           (cloudwan_fetch_fails api \<or> (\<exists>r \<in> set rs. region_fetch_fails api r))"
    and "isl (fst (discover api now default_ttl regions_arg c)) \<Longrightarrow>
           snd (discover api now default_ttl regions_arg c) = c"
proof -
  have tg: "isl (discover_tgws api rs t) = (\<exists>r \<in> set rs. tgw_fetch_fails api r)" for t
    unfolding discover_tgws_def by (rule gather_regions_isl) (rule fetch_tgws_region_isl)
  have vp: "isl (discover_vpcs api rs t) = (\<exists>r \<in> set rs. vpc_fetch_fails api r)" for t
    unfolding discover_vpcs_def by (rule gather_regions_isl) (rule fetch_vpcs_region_isl)
  have en: "isl (build_eni_index api rs t) =
              (\<exists>r \<in> set rs. isl (paginate_describe_network_interfaces api r))" for t
    unfolding build_eni_index_def by (rule gather_regions_isl) (rule fetch_enis_region_isl)
  show "isl (fst (discover api now default_ttl regions_arg c)) =
          (cloudwan_fetch_fails api \<or> (\<exists>r \<in> set rs. region_fetch_fails api r))"
  proof (cases "discover_cloudwan api (new_topology acct rs)")
    case (Inl e)
    with discover_cloudwan_isl [of api "new_topology acct rs"] assms
    show ?thesis by (simp add: discover_def)
  next
    case cw: (Inr t1)
    with discover_cloudwan_isl [of api "new_topology acct rs"]
    have ncw: "\<not> cloudwan_fetch_fails api" by simp
    show ?thesis
    proof (cases "discover_tgws api rs t1")
      case (Inl e)
      with tg [of t1] assms cw show ?thesis
        by (auto simp: discover_def region_fetch_fails_def)
    next
      case tgr: (Inr t2)
      with tg [of t1] have ntg: "\<not> (\<exists>r \<in> set rs. tgw_fetch_fails api r)" by simp
      show ?thesis
      proof (cases "discover_vpcs api rs t2")
        case (Inl e)
        with vp [of t2] assms cw tgr show ?thesis
          by (auto simp: discover_def region_fetch_fails_def)
      next
        case vpr: (Inr t3)
        with vp [of t2] have nvp: "\<not> (\<exists>r \<in> set rs. vpc_fetch_fails api r)" by simp
        show ?thesis
        proof (cases "build_eni_index api rs t3")
          case (Inl e)
          with en [of t3] assms cw tgr vpr show ?thesis
            by (auto simp: discover_def region_fetch_fails_def)
        next
          case (Inr t4)
          with en [of t3] ncw ntg nvp assms cw tgr vpr show ?thesis
            by (auto simp: discover_def region_fetch_fails_def)
        qed
      qed
    qed
  qed
  show "isl (fst (discover api now default_ttl regions_arg c)) \<Longrightarrow>
          snd (discover api now default_ttl regions_arg c) = c"
    using assms by (auto simp: discover_def split: sum.splits)
qed

text \<open>
  Claim C1, as amended. In a discovery run whose account and regions are known,
  \<open>discover\<close> returns a snapshot exactly when no fetch fails. If the Cloud WAN fetch
  or the transit gateway, VPC or network interface fetch of some region raises, the
  failure is not caught: \<open>discover\<close> raises to its caller, no snapshot is returned
  and the cache files are not written.
\<close>

theorem discover_raises_on_fetch_failure:
  assumes "get_caller_identity api = Inr acct"
      and "discovery_regions api regions_arg = Inr rs"
  shows "(cloudwan_fetch_fails api \<or> (\<exists>r \<in> set rs. region_fetch_fails api r) \<longrightarrow>
            isl (fst (discover api now default_ttl regions_arg c)) \<and>
            snd (discover api now default_ttl regions_arg c) = c) \<and>
         (\<not> cloudwan_fetch_fails api \<and> (\<forall>r \<in> set rs. \<not> region_fetch_fails api r) \<longrightarrow>
            \<not> isl (fst (discover api now default_ttl regions_arg c)))"
  using discover_isl [OF assms, of now default_ttl c] by auto


lemma regions_a: "discovery_regions api_failing None = Inr [''eu-west-1'', ''us-east-1'']"
  by (simp add: discovery_regions_def api_failing_def api_a_def)

theorem discover_raises_on_fetch_failure_witness:
  "isl (fst (discover api_failing 0 900 None no_caches)) \<and>
   snd (discover api_failing 0 900 None no_caches) = no_caches \<and>
   \<not> isl (fst (discover api_a 0 900 None no_caches))"
proof -
  have id: "get_caller_identity api_failing = Inr ''111122223333''"
    by (simp add: api_failing_def api_a_def)
  have "region_fetch_fails api_failing ''us-east-1''"
    by (simp add: region_fetch_fails_def tgw_fetch_fails_def api_failing_def)
  then have "cloudwan_fetch_fails api_failing \<or>
             (\<exists>r \<in> set [''eu-west-1'', ''us-east-1'']. region_fetch_fails api_failing r)"
    by simp
  with discover_raises_on_fetch_failure [OF id regions_a, of 0 900 no_caches]
  have failing: "isl (fst (discover api_failing 0 900 None no_caches)) \<and>
                 snd (discover api_failing 0 900 None no_caches) = no_caches"
    by blast
  have id_a: "get_caller_identity api_a = Inr ''111122223333''"
    and regions: "discovery_regions api_a None = Inr [''eu-west-1'', ''us-east-1'']"
    by (simp_all add: discovery_regions_def api_a_def)
  have "\<not> cloudwan_fetch_fails api_a"
    by (simp add: cloudwan_fetch_fails_def api_a_def)
  moreover have "\<not> region_fetch_fails api_a r" for r
    by (simp add: region_fetch_fails_def tgw_fetch_fails_def vpc_fetch_fails_def api_a_def)
  ultimately have "\<not> isl (fst (discover api_a 0 900 None no_caches))"
    using discover_raises_on_fetch_failure [OF id_a regions, of 0 900 no_caches]
    by blast
  with failing show ?thesis by simp
qed

text \<open>
  Claim C1 as stated fails when only the transit gateway listing of \<open>us-east-1\<close>
  raises: the Cloud WAN fetch and every fetch of \<open>eu-west-1\<close> succeed, and
  \<open>discover\<close> raises that region's exception.
\<close>

theorem discover_partial_failure_counterexample:
  "\<not> cloudwan_fetch_fails api_failing \<and>
   \<not> region_fetch_fails api_failing ''eu-west-1'' \<and>
   fst (discover api_failing 0 900 None no_caches)
     = Inl (ClientError ''DescribeTransitGateways'')"
proof -
  have "\<not> cloudwan_fetch_fails api_failing"
    by (simp add: cloudwan_fetch_fails_def api_failing_def api_a_def)
  moreover have "\<not> region_fetch_fails api_failing ''eu-west-1''"
    by (simp add: region_fetch_fails_def tgw_fetch_fails_def vpc_fetch_fails_def
          api_failing_def api_a_def)
  moreover have "fst (discover api_failing 0 900 None no_caches)
                   = Inl (ClientError ''DescribeTransitGateways'')"
  proof -
    have id: "get_caller_identity api_failing = Inr ''111122223333''"
      by (simp add: api_failing_def api_a_def)
    obtain t1 where cw: "discover_cloudwan api_failing
        (new_topology ''111122223333'' [''eu-west-1'', ''us-east-1'']) = Inr t1"
      by (simp add: discover_cloudwan_def api_failing_def api_a_def)
    have "fetch_tgws_region api_failing ''eu-west-1'' t1
            = Inr (t1\<lparr> tgws := (tgws t1)(''eu-west-1'' \<mapsto> [\<lparr> TransitGatewayId = ''tgw-1'' \<rparr>]),
                      tgw_route_tables := (tgw_route_tables t1)(''tgw-1'' \<mapsto> []) \<rparr>)"
      by (simp add: fetch_tgws_region_def api_failing_def api_a_def)
    moreover have "fetch_tgws_region api_failing ''us-east-1'' t
            = Inl (ClientError ''DescribeTransitGateways'')" for t
      by (simp add: fetch_tgws_region_def api_failing_def)
    ultimately have "discover_tgws api_failing [''eu-west-1'', ''us-east-1''] t1
            = Inl (ClientError ''DescribeTransitGateways'')"
      by (simp add: discover_tgws_def)
    with id cw show ?thesis
      by (simp add: discover_def regions_a)
  qed
  ultimately show ?thesis by simp
qed


subsection \<open>Route selection\<close>

lemma best_route_loop_Cons:
  "best_route_loop lib a (r # rs) best blen =
     (if candidate lib a r \<and> int (route_prefixlen lib r) > blen
      then best_route_loop lib a rs (Some r) (int (route_prefixlen lib r))
      else best_route_loop lib a rs best blen)"
  by (auto simp: candidate_def route_prefixlen_def split: option.splits)

lemma earliest_longest_bound:
  assumes "earliest_longest lib a seen b" and "x \<in> set seen" and "candidate lib a x"
  shows "route_prefixlen lib x \<le> route_prefixlen lib b"
proof -
  from assms(1) obtain before after where
    s: "seen = before @ b # after"
    and lt: "\<forall>y \<in> set before. candidate lib a y \<longrightarrow> route_prefixlen lib y < route_prefixlen lib b"
    and le: "\<forall>y \<in> set after. candidate lib a y \<longrightarrow> route_prefixlen lib y \<le> route_prefixlen lib b"
    unfolding earliest_longest_def by blast
  from assms(2) s have "x \<in> set before \<or> x = b \<or> x \<in> set after" by auto
  with lt le assms(3) show ?thesis by (auto simp: less_imp_le)
qed

lemma earliest_longest_new:
  assumes "candidate lib a r"
      and "\<forall>x \<in> set seen. candidate lib a x \<longrightarrow> route_prefixlen lib x < route_prefixlen lib r"
  shows "earliest_longest lib a (seen @ [r]) r"
  unfolding earliest_longest_def
  using assms by (intro exI [of _ seen] exI [of _ "[]"]) simp

lemma earliest_longest_keep:
  assumes "earliest_longest lib a seen b"
      and "candidate lib a r \<longrightarrow> route_prefixlen lib r \<le> route_prefixlen lib b"
  shows "earliest_longest lib a (seen @ [r]) b"
proof -
  from assms(1) obtain before after where
    s: "seen = before @ b # after" and c: "candidate lib a b"
    and lt: "\<forall>y \<in> set before. candidate lib a y \<longrightarrow> route_prefixlen lib y < route_prefixlen lib b"
    and le: "\<forall>y \<in> set after. candidate lib a y \<longrightarrow> route_prefixlen lib y \<le> route_prefixlen lib b"
    unfolding earliest_longest_def by blast
  show ?thesis
    unfolding earliest_longest_def
    using s c lt le assms(2)
    by (intro exI [of _ before] exI [of _ "after @ [r]"]) auto
qed

lemma best_route_loop_invariant:
  assumes "(best = None \<and> blen = - 1 \<and> (\<forall>x \<in> set seen. \<not> candidate lib a x)) \<or>
           (\<exists>b. best = Some b \<and> blen = int (route_prefixlen lib b) \<and>
                earliest_longest lib a seen b)"
  shows "case best_route_loop lib a rs best blen of
           None \<Rightarrow> \<forall>x \<in> set (seen @ rs). \<not> candidate lib a x
         | Some r \<Rightarrow> earliest_longest lib a (seen @ rs) r"
  using assms
proof (induction rs arbitrary: seen best blen)
  case Nil
  then show ?case by auto
next
  case (Cons r rs)
  show ?case
  proof (cases "candidate lib a r \<and> int (route_prefixlen lib r) > blen")
    case True
    have "\<forall>x \<in> set seen. candidate lib a x \<longrightarrow> route_prefixlen lib x < route_prefixlen lib r"
    proof (intro ballI impI)
      fix x assume x: "x \<in> set seen" "candidate lib a x"
      from Cons.prems show "route_prefixlen lib x < route_prefixlen lib r"
      proof
        assume "best = None \<and> blen = - 1 \<and> (\<forall>x \<in> set seen. \<not> candidate lib a x)"
        with x show ?thesis by blast
      next
        assume "\<exists>b. best = Some b \<and> blen = int (route_prefixlen lib b) \<and>
                  earliest_longest lib a seen b"
        then obtain b where b: "blen = int (route_prefixlen lib b)"
          "earliest_longest lib a seen b" by blast
        from earliest_longest_bound [OF b(2) x] b(1) True show ?thesis by simp
      qed
    qed
    with True have "earliest_longest lib a (seen @ [r]) r"
      by (simp add: earliest_longest_new)
    then have "case best_route_loop lib a rs (Some r) (int (route_prefixlen lib r)) of
                 None \<Rightarrow> \<forall>x \<in> set ((seen @ [r]) @ rs). \<not> candidate lib a x
               | Some r' \<Rightarrow> earliest_longest lib a ((seen @ [r]) @ rs) r'"
      by (intro Cons.IH) simp
    with True show ?thesis by (auto simp add: best_route_loop_Cons simp del: best_route_loop.simps split: option.splits)
  next
    case False
    have "(best = None \<and> blen = - 1 \<and> (\<forall>x \<in> set (seen @ [r]). \<not> candidate lib a x)) \<or>
          (\<exists>b. best = Some b \<and> blen = int (route_prefixlen lib b) \<and>
               earliest_longest lib a (seen @ [r]) b)"
      using Cons.prems
    proof
      assume n: "best = None \<and> blen = - 1 \<and> (\<forall>x \<in> set seen. \<not> candidate lib a x)"
      with False have "\<not> candidate lib a r" by auto
      with n show ?thesis by auto
    next
      assume "\<exists>b. best = Some b \<and> blen = int (route_prefixlen lib b) \<and>
                earliest_longest lib a seen b"
      then obtain b where b: "best = Some b" "blen = int (route_prefixlen lib b)"
        "earliest_longest lib a seen b" by blast
      from False b(2) have "candidate lib a r \<longrightarrow> route_prefixlen lib r \<le> route_prefixlen lib b"
        by auto
      from earliest_longest_keep [OF b(3) this] b show ?thesis by blast
    qed
    then have "case best_route_loop lib a rs best blen of
                 None \<Rightarrow> \<forall>x \<in> set ((seen @ [r]) @ rs). \<not> candidate lib a x
               | Some r' \<Rightarrow> earliest_longest lib a ((seen @ [r]) @ rs) r'"
      by (rule Cons.IH)
    with False show ?thesis by (auto simp add: best_route_loop_Cons simp del: best_route_loop.simps split: option.splits)
  qed
qed

lemma find_best_route_result:
  assumes "ip_address lib dst = Some a"
  shows "find_best_route lib rs dst = Inr None \<and> (\<forall>x \<in> set rs. \<not> candidate lib a x) \<or>
         (\<exists>r. find_best_route lib rs dst = Inr (Some r) \<and> earliest_longest lib a rs r)"
  using best_route_loop_invariant [of None "- 1" "[]" lib a rs] assms
  by (auto simp: find_best_route_def split: option.splits)

lemma earliest_longest_candidate: "earliest_longest lib a rs r \<Longrightarrow> r \<in> set rs \<and> candidate lib a r"
  by (auto simp: earliest_longest_def)

lemma no_candidate_no_route:
  assumes "ip_address lib dst = Some a" and "\<forall>x \<in> set rs. \<not> candidate lib a x"
  shows "find_best_route lib rs dst = Inr None"
  using find_best_route_result [OF assms(1), of rs] assms(2)
  by (auto dest: earliest_longest_candidate)

text \<open>
  Claim C2. For every route list and every destination that parses as an address,
  \<open>_find_best_route\<close> does not raise; when it returns no route, no entry is a
  candidate (not a blackhole, with a destination network containing the address); when
  it returns a route, that route is an entry of the list and a candidate, no candidate
  has a longer prefix, and every candidate before it in the list has a strictly
  shorter one, so that of two candidates of maximal length the earlier is returned.
\<close>

theorem find_best_route_longest_prefix:
  assumes "ip_address lib dst = Some a"
  shows "case find_best_route lib rs dst of
           Inl e \<Rightarrow> False
         | Inr None \<Rightarrow> \<forall>x \<in> set rs. \<not> candidate lib a x
         | Inr (Some r) \<Rightarrow>
             r \<in> set rs \<and> candidate lib a r \<and>
             (\<forall>x \<in> set rs. candidate lib a x \<longrightarrow> route_prefixlen lib x \<le> route_prefixlen lib r) \<and>
             earliest_longest lib a rs r"
  using find_best_route_result [OF assms, of rs]
  by (auto dest: earliest_longest_candidate earliest_longest_bound)


lemma netmask_8: "netmask 8 = (4278190080 :: 32 word)"
  by code_simp

lemma netmask_12: "netmask 12 = (4293918720 :: 32 word)"
  by code_simp

lemma netmask_16: "netmask 16 = (4294901760 :: 32 word)"
  by code_simp

lemma netmask_24: "netmask 24 = (4294967040 :: 32 word)"
  by code_simp

lemmas ipv4_eval = ipv4_def ipv4_network_def ipv4_address_def dotted_quad_def octet_def
  decimal_def is_digit_def netmask_8 netmask_12 netmask_16 netmask_24

text \<open>
  In the list with a tie the first of the two /16 routes is selected.
\<close>

theorem find_best_route_longest_prefix_witness:
  "find_best_route ipv4 routes_tie ''10.0.1.9''
     = Inr (Some \<lparr> destination = ''10.0.0.0/16'', target = ''local'',
                     core_network_arn = None, state = ''active'' \<rparr>) \<and>
   earliest_longest ipv4 (IPv4Address 167772425) routes_tie
     \<lparr> destination = ''10.0.0.0/16'', target = ''local'',
       core_network_arn = None, state = ''active'' \<rparr>"
proof -
  have a: "ip_address ipv4 ''10.0.1.9'' = Some (IPv4Address 167772425)"
    by (simp add: ipv4_eval)
  have r: "find_best_route ipv4 routes_tie ''10.0.1.9''
             = Inr (Some \<lparr> destination = ''10.0.0.0/16'', target = ''local'',
                             core_network_arn = None, state = ''active'' \<rparr>)"
    by (simp add: find_best_route_def routes_tie_def ipv4_eval)
  from find_best_route_longest_prefix [OF a, of routes_tie] r show ?thesis
    by simp
qed


subsection \<open>The trace on a loaded snapshot\<close>

lemma trace_loaded:
  "topology eng = Some t \<Longrightarrow>
     fst (trace lib api now default_ttl eng c src dst) = fst (trace_steps lib api t src dst)"
  by (simp add: trace_def ensure_topology_def split: prod.splits)

lemma find_eni_cached_keeps:
  assumes "find_eni_cached api t addr = Inr (found, t')"
  shows "regions t' = regions t" and "cwan_attachments t' = cwan_attachments t"
    and "cwan_policy t' = cwan_policy t" and "route_tables t' = route_tables t"
  using assms
  by (auto simp: find_eni_cached_def find_eni_api_def split: option.splits sum.splits)

lemma source_route_table_keeps:
  "route_tables t' = route_tables t \<Longrightarrow> source_route_table api t' s = source_route_table api t s"
  by (simp add: source_route_table_def get_route_table_cached_def split: option.splits)

text \<open>
  With both addresses resolved and the route table found, the trace is the branch on
  the selected route, or the blocked result when there is none.
\<close>

lemma trace_steps_resolved:
  assumes "find_eni_cached api t src = Inr (Some src_eni, t1)"
      and "find_eni_cached api t1 dst = Inr (Some dst_eni, t2)"
      and "source_route_table api t src_eni = Inr src_rt"
      and "find_best_route lib (routes src_rt) dst = Inr selected"
  shows "fst (trace_steps lib api t src dst) =
           Inr (let result2 = \<lparr> src_ip = src, dst_ip = dst, reachable = False,
                                 hops = [source_hop src src_eni, route_table_hop src_rt src_eni],
                                 blocked_at = None, blocked_reason = [] \<rparr>
                in case selected of
                     None \<Rightarrow> result2\<lparr> blocked_reason :=
                                ''No route to '' @ dst @ '' in route table '' @ rt_id src_rt,
                              blocked_at := Some (route_table_hop src_rt src_eni) \<rparr>
                   | Some r \<Rightarrow> next_hop t2 result2 2 src_eni dst_eni r)"
proof -
  have "route_tables t2 = route_tables t"
    using find_eni_cached_keeps(4) [OF assms(1)] find_eni_cached_keeps(4) [OF assms(2)]
    by simp
  from source_route_table_keeps [OF this] assms(3)
  have rt: "source_route_table api t2 src_eni = Inr src_rt"
    by simp
  show ?thesis
    apply (simp only: trace_steps_def assms(1,2,4) rt sum.case prod.case option.case Let_def)
    apply (cases selected)
     apply (simp_all only: sum.case prod.case option.case fst_conv)
     apply simp_all
    done
qed

text \<open>Claim C7's and claim C9's results share their two hops.\<close>

lemma trace_selected:
  assumes "topology eng = Some t"
      and "find_eni_cached api t src = Inr (Some src_eni, t1)"
      and "find_eni_cached api t1 dst = Inr (Some dst_eni, t2)"
      and "source_route_table api t src_eni = Inr src_rt"
      and "find_best_route lib (routes src_rt) dst = Inr (Some r)"
  shows "fst (trace lib api now default_ttl eng c src dst) =
           Inr (next_hop t2 \<lparr> src_ip = src, dst_ip = dst, reachable = False,
                               hops = [source_hop src src_eni, route_table_hop src_rt src_eni],
                               blocked_at = None, blocked_reason = [] \<rparr>
                  2 src_eni dst_eni r)"
  using trace_steps_resolved [OF assms(2-5)] assms(1)
  by (simp add: trace_loaded)

text \<open>
  Claim C7. When both addresses resolve, the source's route table is found and no
  route of it is a candidate for the destination address, \<open>trace\<close> returns a result
  (it does not raise) that is not reachable, has exactly the interface hop and the
  route table hop, is blocked at the route table hop, and whose reason is
  "No route to" followed by the destination, "in route table" and the table's id.
\<close>

theorem trace_no_route:
  assumes "topology eng = Some t"
      and "find_eni_cached api t src = Inr (Some src_eni, t1)"
      and "find_eni_cached api t1 dst = Inr (Some dst_eni, t2)"
      and "source_route_table api t src_eni = Inr src_rt"
      and "ip_address lib dst = Some a"
      and "\<forall>r \<in> set (routes src_rt). \<not> candidate lib a r"
  shows "fst (trace lib api now default_ttl eng c src dst) =
           Inr \<lparr> src_ip = src, dst_ip = dst, reachable = False,
                 hops = [source_hop src src_eni, route_table_hop src_rt src_eni],
                 blocked_at = Some (route_table_hop src_rt src_eni),
                 blocked_reason = ''No route to '' @ dst @ '' in route table '' @ rt_id src_rt \<rparr>"
  using trace_steps_resolved [OF assms(2-4) no_candidate_no_route [OF assms(5,6)]] assms(1)
  by (simp add: trace_loaded)

text \<open>
  Claim C6, as amended. When both addresses resolve to interfaces of one VPC, the
  source's route table is found and the route selected for the destination has target
  \<open>local\<close>, \<open>trace\<close> returns a reachable result with exactly three hops: the
  interface, the route table, the destination.
\<close>

theorem trace_local_same_vpc:
  assumes "topology eng = Some t"
      and "find_eni_cached api t src = Inr (Some src_eni, t1)"
      and "find_eni_cached api t1 dst = Inr (Some dst_eni, t2)"
      and "vpc_id src_eni = vpc_id dst_eni"
      and "source_route_table api t src_eni = Inr src_rt"
      and "find_best_route lib (routes src_rt) dst = Inr (Some r)"
      and "target r = ''local''"
  shows "fst (trace lib api now default_ttl eng c src dst) =
           Inr \<lparr> src_ip = src, dst_ip = dst, reachable = True,
                 hops = [source_hop src src_eni, route_table_hop src_rt src_eni,
                         \<lparr> seq = 3, hop_type = ''destination'', hop_id = eni_id dst_eni,
                            hop_name = ''dst:'' @ dst, hop_region = region dst_eni,
                            detail = [] \<rparr>],
                 blocked_at = None, blocked_reason = [] \<rparr>"
  using trace_selected [OF assms(1-3,5,6)] assms(4,7)
  by (simp add: next_hop_def)

text \<open>
  Claim C9, as amended. When the selected route has target \<open>local\<close> and carries no
  core network reference, and the two interfaces lie in different VPCs, \<open>trace\<close>
  returns a result that is not reachable, with only the interface and route table
  hops, \<open>blocked_at\<close> unset and the reason "Unsupported route target: local".
\<close>

theorem trace_local_other_vpc:
  assumes "topology eng = Some t"
      and "find_eni_cached api t src = Inr (Some src_eni, t1)"
      and "find_eni_cached api t1 dst = Inr (Some dst_eni, t2)"
      and "vpc_id src_eni \<noteq> vpc_id dst_eni"
      and "source_route_table api t src_eni = Inr src_rt"
      and "find_best_route lib (routes src_rt) dst = Inr (Some r)"
      and "target r = ''local''"
      and "\<not> truthy (core_network_arn r)"
  shows "fst (trace lib api now default_ttl eng c src dst) =
           Inr \<lparr> src_ip = src, dst_ip = dst, reachable = False,
                 hops = [source_hop src src_eni, route_table_hop src_rt src_eni],
                 blocked_at = None,
                 blocked_reason = ''Unsupported route target: local'' \<rparr>"
  using trace_selected [OF assms(1-3,5,6)] assms(4,7,8)
  by (simp add: next_hop_def)


subsection \<open>The Cloud WAN path\<close>

lemma firewall_loop_none:
  "filter (serves nfg r) atts = [] \<Longrightarrow> firewall_loop atts nfg r n hs = (n, hs)"
  by (induction atts arbitrary: n hs) (auto split: if_splits)

lemma firewall_loop_one:
  "filter (serves nfg r) atts = [fw] \<Longrightarrow>
     firewall_loop atts nfg r n hs = (n + 1, hs @ [firewall_hop fw (n + 1)])"
proof (induction atts arbitrary: n hs)
  case Nil
  then show ?case by simp
next
  case (Cons att atts)
  show ?case
  proof (cases "serves nfg r att")
    case True
    with Cons.prems have "att = fw" and "filter (serves nfg r) atts = []" by simp_all
    with True show ?thesis by (simp add: firewall_loop_none)
  next
    case False
    with Cons.prems have "filter (serves nfg r) atts = [fw]" by simp
    from Cons.IH [OF this] False show ?thesis by simp
  qed
qed

lemma cloudwan_inspection_path:
  assumes "topology eng = Some t"
      and "find_eni_cached api t src = Inr (Some src_eni, t1)"
      and "find_eni_cached api t1 dst = Inr (Some dst_eni, t2)"
      and "source_route_table api t src_eni = Inr src_rt"
      and "find_best_route lib (routes src_rt) dst = Inr (Some r)"
      and "truthy (core_network_arn r)"
      and "target r = ''local'' \<longrightarrow> vpc_id src_eni \<noteq> vpc_id dst_eni"
      and "get_segment_for_vpc t (vpc_id src_eni) (region src_eni) = Some seg" and "seg \<noteq> []"
      and "get_send_via_nfg t seg (get_segment_for_vpc t (vpc_id dst_eni) (region dst_eni))
             = Some nfg" and "nfg \<noteq> []"
      and "filter (serves nfg (region src_eni)) (cwan_attachments t) = [fw]"
      and "region src_eni = region dst_eni"
  shows "fst (trace lib api now default_ttl eng c src dst) =
           Inr \<lparr> src_ip = src, dst_ip = dst, reachable = True,
                 hops = [source_hop src src_eni, route_table_hop src_rt src_eni,
                         \<lparr> seq = 3, hop_type = ''cloud_wan_segment'', hop_id = seg,
                            hop_name = ''segment:'' @ seg, hop_region = region src_eni,
                            detail = [] \<rparr>,
                         \<lparr> seq = 4, hop_type = ''nfg'', hop_id = nfg,
                            hop_name = ''inspection:'' @ nfg, hop_region = region src_eni,
                            detail = [] \<rparr>,
                         firewall_hop fw 5,
                         \<lparr> seq = 6, hop_type = ''destination'', hop_id = eni_id dst_eni,
                            hop_name = ''dst:'' @ dst, hop_region = region dst_eni,
                            detail = [(''vpc_id'', Some (vpc_id dst_eni)),
                                      (''segment'',
                                       get_segment_for_vpc t (vpc_id dst_eni) (region dst_eni))] \<rparr>],
                 blocked_at = None, blocked_reason = [] \<rparr>
         \<and> hop_type (firewall_hop fw 5) = ''firewall''
         \<and> detail (firewall_hop fw 5) = [(''attachment_id'', Some (AttachmentId fw))]"
proof -
  have att: "cwan_attachments t2 = cwan_attachments t"
    using find_eni_cached_keeps(2) [OF assms(2)] find_eni_cached_keeps(2) [OF assms(3)]
    by simp
  have pol: "cwan_policy t2 = cwan_policy t"
    using find_eni_cached_keeps(3) [OF assms(2)] find_eni_cached_keeps(3) [OF assms(3)]
    by simp
  have seg: "get_segment_for_vpc t2 v rg = get_segment_for_vpc t v rg" for v rg
    by (simp add: get_segment_for_vpc_def att)
  have nfg: "get_send_via_nfg t2 s d = get_send_via_nfg t s d" for s d
    by (simp add: get_send_via_nfg_def pol)
  have fw: "firewall_loop (cwan_attachments t2) nfg (region dst_eni) n hs
              = (n + 1, hs @ [firewall_hop fw (n + 1)])" for n hs
    using assms(12,13) by (simp add: att firewall_loop_one)
  let ?result2 = "\<lparr> src_ip = src, dst_ip = dst, reachable = False,
                      hops = [source_hop src src_eni, route_table_hop src_rt src_eni],
                      blocked_at = None, blocked_reason = [] \<rparr>"
  have "next_hop t2 ?result2 2 src_eni dst_eni r
          = trace_via_cloudwan t2 ?result2 2 src_eni dst_eni"
    using assms(6,7) by (auto simp: next_hop_def)
  also have "\<dots> = \<lparr> src_ip = src, dst_ip = dst, reachable = True,
                 hops = [source_hop src src_eni, route_table_hop src_rt src_eni,
                         \<lparr> seq = 3, hop_type = ''cloud_wan_segment'', hop_id = seg,
                            hop_name = ''segment:'' @ seg, hop_region = region src_eni,
                            detail = [] \<rparr>,
                         \<lparr> seq = 4, hop_type = ''nfg'', hop_id = nfg,
                            hop_name = ''inspection:'' @ nfg, hop_region = region src_eni,
                            detail = [] \<rparr>,
                         firewall_hop fw 5,
                         \<lparr> seq = 6, hop_type = ''destination'', hop_id = eni_id dst_eni,
                            hop_name = ''dst:'' @ dst, hop_region = region dst_eni,
                            detail = [(''vpc_id'', Some (vpc_id dst_eni)),
                                      (''segment'',
                                       get_segment_for_vpc t (vpc_id dst_eni) (region dst_eni))] \<rparr>],
                 blocked_at = None, blocked_reason = [] \<rparr>"
    using assms(8-11,13)
    by (simp add: trace_via_cloudwan_def seg nfg fw Let_def)
  finally show ?thesis
    using trace_selected [OF assms(1-5)]
    by (simp add: firewall_hop_def)
qed

text \<open>
  Claim C5, as amended. When the selected route carries a core network reference and
  is not taken by the local branch (its target is not \<open>local\<close>, or the interfaces lie
  in different VPCs), the source VPC's attachment gives a segment, the send-via lookup
  for the source segment and the destination's segment gives an inspection group,
  exactly one attachment serves that group in the source's region, and both interfaces
  are in one region, \<open>trace\<close> returns a reachable result with exactly the hops
  interface, route table, segment, inspection group, firewall, destination, numbered 1
  to 6, the firewall hop carrying that attachment's id.
\<close>

theorem trace_cloudwan_inspection:
  assumes "topology eng = Some t"
      and "find_eni_cached api t src = Inr (Some src_eni, t1)"
      and "find_eni_cached api t1 dst = Inr (Some dst_eni, t2)"
      and "source_route_table api t src_eni = Inr src_rt"
      and "find_best_route lib (routes src_rt) dst = Inr (Some r)"
      and "truthy (core_network_arn r)"
      and "target r = ''local'' \<longrightarrow> vpc_id src_eni \<noteq> vpc_id dst_eni"
      and "get_segment_for_vpc t (vpc_id src_eni) (region src_eni) = Some seg" and "seg \<noteq> []"
      and "get_send_via_nfg t seg (get_segment_for_vpc t (vpc_id dst_eni) (region dst_eni))
             = Some nfg" and "nfg \<noteq> []"
      and "filter (serves nfg (region src_eni)) (cwan_attachments t) = [fw]"
      and "region src_eni = region dst_eni"
  shows "fst (trace lib api now default_ttl eng c src dst) =
           Inr \<lparr> src_ip = src, dst_ip = dst, reachable = True,
                 hops = [source_hop src src_eni, route_table_hop src_rt src_eni,
                         \<lparr> seq = 3, hop_type = ''cloud_wan_segment'', hop_id = seg,
                            hop_name = ''segment:'' @ seg, hop_region = region src_eni,
                            detail = [] \<rparr>,
                         \<lparr> seq = 4, hop_type = ''nfg'', hop_id = nfg,
                            hop_name = ''inspection:'' @ nfg, hop_region = region src_eni,
                            detail = [] \<rparr>,
                         firewall_hop fw 5,
                         \<lparr> seq = 6, hop_type = ''destination'', hop_id = eni_id dst_eni,
                            hop_name = ''dst:'' @ dst, hop_region = region dst_eni,
                            detail = [(''vpc_id'', Some (vpc_id dst_eni)),
                                      (''segment'',
                                       get_segment_for_vpc t (vpc_id dst_eni) (region dst_eni))] \<rparr>],
                 blocked_at = None, blocked_reason = [] \<rparr>
         \<and> hop_type (firewall_hop fw 5) = ''firewall''
         \<and> detail (firewall_hop fw 5) = [(''attachment_id'', Some (AttachmentId fw))]"
  using cloudwan_inspection_path [OF assms] .

subsection \<open>Unresolved addresses\<close>

lemma set_ordered_regions: "set (ordered_regions rs) = set rs"
  by (auto simp: ordered_regions_def)

lemma search_regions_none:
  "\<forall>r \<in> set rs. find_eni_in_region api addr r = None \<Longrightarrow> search_regions api addr rs = None"
  by (induction rs) simp_all

lemma unresolved_find:
  assumes "unresolved api t addr"
  shows "find_eni_cached api t addr = Inr (None, t)"
proof -
  from assms obtain rs where
    rs: "(if regions t = [] then describe_regions api else Inr (regions t)) = Inr rs"
    and none: "\<forall>r \<in> set rs. find_eni_in_region api addr r = None"
    and idx: "eni_index t addr = None"
    by (auto simp: unresolved_def list_all_iff split: sum.splits)
  from none have "search_regions api addr (ordered_regions rs) = None"
    by (intro search_regions_none) (simp add: set_ordered_regions)
  with rs idx show ?thesis
    by (simp add: find_eni_cached_def find_eni_api_def)
qed

lemma unresolved_other_lookup:
  assumes "unresolved api t addr"
  shows "\<exists>found t'. find_eni_cached api t other = Inr (found, t')"
proof -
  from assms obtain rs where
    "(if regions t = [] then describe_regions api else Inr (regions t)) = Inr rs"
    by (auto simp: unresolved_def split: sum.splits)
  then show ?thesis
    by (auto simp: find_eni_cached_def find_eni_api_def split: option.splits)
qed

text \<open>
  Claim C8. When the source resolves to no interface record, \<open>trace\<close> returns a
  result (it does not raise) that is not reachable, has no hops and whose reason names
  the source address; when the source resolves and the destination resolves to no
  interface record, the same with the destination address named.
\<close>

theorem trace_unresolved:
  assumes "topology eng = Some t"
  shows "(unresolved api t src \<longrightarrow>
            fst (trace lib api now default_ttl eng c src dst) =
              Inr \<lparr> src_ip = src, dst_ip = dst, reachable = False, hops = [],
                    blocked_at = None,
                    blocked_reason = ''Source IP '' @ src @ '' not found in topology'' \<rparr>) \<and>
         (\<forall>src_eni t1.
            find_eni_cached api t src = Inr (Some src_eni, t1) \<and> unresolved api t1 dst \<longrightarrow>
            fst (trace lib api now default_ttl eng c src dst) =
              Inr \<lparr> src_ip = src, dst_ip = dst, reachable = False, hops = [],
                    blocked_at = None,
                    blocked_reason = ''Destination IP '' @ dst @ '' not found in topology'' \<rparr>)"
proof (intro conjI impI allI)
  assume u: "unresolved api t src"
  from unresolved_other_lookup [OF u, of dst] obtain found t' where
    "find_eni_cached api t dst = Inr (found, t')" by blast
  with unresolved_find [OF u] assms
  show "fst (trace lib api now default_ttl eng c src dst) =
          Inr \<lparr> src_ip = src, dst_ip = dst, reachable = False, hops = [],
                blocked_at = None,
                blocked_reason = ''Source IP '' @ src @ '' not found in topology'' \<rparr>"
    by (simp add: trace_loaded trace_steps_def)
next
  fix src_eni t1
  assume "find_eni_cached api t src = Inr (Some src_eni, t1) \<and> unresolved api t1 dst"
  with unresolved_find [of api t1 dst] assms
  show "fst (trace lib api now default_ttl eng c src dst) =
          Inr \<lparr> src_ip = src, dst_ip = dst, reachable = False, hops = [],
                blocked_at = None,
                blocked_reason = ''Destination IP '' @ dst @ '' not found in topology'' \<rparr>"
    by (simp add: trace_loaded trace_steps_def)
qed


subsection \<open>Runs on the small network\<close>

lemma engine_a_loaded: "topology engine_a = Some topology_a"
  by (simp add: engine_a_def)

lemma lookup_indexed:
  "eni_index topology_a addr = Some d \<Longrightarrow>
     find_eni_cached api_a topology_a addr = Inr (Some (eni_info d addr), topology_a)"
  by (simp add: find_eni_cached_def)

lemma index_a:
  "eni_index topology_a ''10.0.1.5'' = Some (eni_in ''eni-a5'' ''vpc-a'' ''subnet-a'')"
  "eni_index topology_a ''10.0.1.9'' = Some (eni_in ''eni-a9'' ''vpc-a'' ''subnet-a'')"
  "eni_index topology_a ''10.0.2.9'' = Some (eni_in ''eni-a29'' ''vpc-a'' ''subnet-a2'')"
  "eni_index topology_a ''10.0.4.9'' = Some (eni_in ''eni-a49'' ''vpc-a'' ''subnet-a4'')"
  "eni_index topology_a ''10.1.0.7'' = Some (eni_in ''eni-b7'' ''vpc-b'' ''subnet-b'')"
  "eni_index topology_a ''10.3.0.9'' = Some (eni_in ''eni-d9'' ''vpc-d'' ''subnet-d'')"
  "eni_index topology_a ''172.16.0.1'' = Some (eni_in ''eni-c1'' ''vpc-c'' ''subnet-c'')"
  "eni_index topology_a ''192.168.0.1'' = None"
  by (simp_all add: topology_a_def new_topology_def)

lemmas lookup_a = index_a(1-7) [THEN lookup_indexed]

lemma rt_a_found:
  "source_route_table api_a topology_a
     (eni_info (eni_in ''eni-a5'' ''vpc-a'' ''subnet-a'') ''10.0.1.5'') = Inr rt_a"
  by (simp add: source_route_table_def get_route_table_cached_def topology_a_def
        new_topology_def eni_info_def eni_in_def)

lemma addresses_a:
  "ip_address ipv4 ''10.0.1.9'' = Some (IPv4Address 167772425)"
  "ip_address ipv4 ''10.0.2.9'' = Some (IPv4Address 167772681)"
  "ip_address ipv4 ''172.16.0.1'' = Some (IPv4Address 2886729729)"
  by (simp_all add: ipv4_eval)

lemma best_a:
  "find_best_route ipv4 (routes rt_a) ''10.0.1.9''
     = Inr (Some \<lparr> destination = ''10.0.0.0/16'', target = ''local'',
                     core_network_arn = None, state = ''active'' \<rparr>)"
  "find_best_route ipv4 (routes rt_a) ''10.0.2.9''
     = Inr (Some \<lparr> destination = ''10.0.2.0/24'', target = ''eni-0fw'',
                     core_network_arn = None, state = ''active'' \<rparr>)"
  "find_best_route ipv4 (routes rt_a) ''10.1.0.7''
     = Inr (Some \<lparr> destination = ''10.1.0.0/16'', target = ''local'',
                     core_network_arn =
                       Some ''arn:aws:networkmanager::111122223333:core-network/cn-1'',
                     state = ''active'' \<rparr>)"
  "find_best_route ipv4 (routes rt_a) ''10.3.0.9''
     = Inr (Some \<lparr> destination = ''10.3.0.0/16'', target = ''local'',
                     core_network_arn = None, state = ''active'' \<rparr>)"
  "find_best_route ipv4 (routes rt_a) ''10.0.4.9''
     = Inr (Some \<lparr> destination = ''10.0.4.0/24'', target = ''local'',
                     core_network_arn =
                       Some ''arn:aws:networkmanager::111122223333:core-network/cn-1'',
                     state = ''active'' \<rparr>)"
  by (simp_all add: find_best_route_def rt_a_def ipv4_eval)

lemma no_candidate_a:
  "\<forall>r \<in> set (routes rt_a). \<not> candidate ipv4 (IPv4Address 2886729729) r"
  by (simp add: rt_a_def candidate_def ipv4_eval)

lemmas hops_a = source_hop_def route_table_hop_def eni_info_def eni_in_def rt_a_def get_or_def

text \<open>
  From 10.0.1.5 to 10.0.1.9, both in \<open>vpc-a\<close>, the /16 local route is selected.
\<close>

theorem trace_local_same_vpc_witness:
  "fst (trace ipv4 api_a 60000000 900 engine_a no_caches ''10.0.1.5'' ''10.0.1.9'') =
     Inr \<lparr> src_ip = ''10.0.1.5'', dst_ip = ''10.0.1.9'', reachable = True,
           hops = [\<lparr> seq = 1, hop_type = ''eni'', hop_id = ''eni-a5'',
                      hop_name = ''src:10.0.1.5'', hop_region = ''eu-west-1'',
                      detail = [(''vpc_id'', Some ''vpc-a''),
                                (''subnet_id'', Some ''subnet-a'')] \<rparr>,
                   \<lparr> seq = 2, hop_type = ''route_table'', hop_id = ''rtb-a'',
                      hop_name = ''private-a'', hop_region = ''eu-west-1'', detail = [] \<rparr>,
                   \<lparr> seq = 3, hop_type = ''destination'', hop_id = ''eni-a9'',
                      hop_name = ''dst:10.0.1.9'', hop_region = ''eu-west-1'',
                      detail = [] \<rparr>],
           blocked_at = None, blocked_reason = [] \<rparr>"
  using trace_local_same_vpc [OF engine_a_loaded lookup_a(1) lookup_a(2) _ rt_a_found
      best_a(1), where now = 60000000 and default_ttl = 900 and c = no_caches]
  by (simp add: hops_a)

text \<open>
  Claim C6 as stated fails for the destination 10.0.2.9: both interfaces are in
  \<open>vpc-a\<close> and the local route for 10.0.0.0/16 covers the destination, but the
  longer route for 10.0.2.0/24 to a firewall interface is selected, and its target is
  not supported.
\<close>

theorem trace_same_vpc_counterexample:
  "map_option vpc_id (eni_index topology_a ''10.0.1.5'') = Some ''vpc-a'' \<and>
   map_option vpc_id (eni_index topology_a ''10.0.2.9'') = Some ''vpc-a'' \<and>
   \<lparr> destination = ''10.0.0.0/16'', target = ''local'',
     core_network_arn = None, state = ''active'' \<rparr> \<in> set (routes rt_a) \<and>
   candidate ipv4 (IPv4Address 167772681)
     \<lparr> destination = ''10.0.0.0/16'', target = ''local'',
       core_network_arn = None, state = ''active'' \<rparr> \<and>
   fst (trace ipv4 api_a 60000000 900 engine_a no_caches ''10.0.1.5'' ''10.0.2.9'') =
     Inr \<lparr> src_ip = ''10.0.1.5'', dst_ip = ''10.0.2.9'', reachable = False,
           hops = [\<lparr> seq = 1, hop_type = ''eni'', hop_id = ''eni-a5'',
                      hop_name = ''src:10.0.1.5'', hop_region = ''eu-west-1'',
                      detail = [(''vpc_id'', Some ''vpc-a''),
                                (''subnet_id'', Some ''subnet-a'')] \<rparr>,
                   \<lparr> seq = 2, hop_type = ''route_table'', hop_id = ''rtb-a'',
                      hop_name = ''private-a'', hop_region = ''eu-west-1'', detail = [] \<rparr>],
           blocked_at = None, blocked_reason = ''Unsupported route target: eni-0fw'' \<rparr>"
proof -
  have "fst (trace ipv4 api_a 60000000 900 engine_a no_caches ''10.0.1.5'' ''10.0.2.9'') =
     Inr \<lparr> src_ip = ''10.0.1.5'', dst_ip = ''10.0.2.9'', reachable = False,
           hops = [\<lparr> seq = 1, hop_type = ''eni'', hop_id = ''eni-a5'',
                      hop_name = ''src:10.0.1.5'', hop_region = ''eu-west-1'',
                      detail = [(''vpc_id'', Some ''vpc-a''),
                                (''subnet_id'', Some ''subnet-a'')] \<rparr>,
                   \<lparr> seq = 2, hop_type = ''route_table'', hop_id = ''rtb-a'',
                      hop_name = ''private-a'', hop_region = ''eu-west-1'', detail = [] \<rparr>],
           blocked_at = None, blocked_reason = ''Unsupported route target: eni-0fw'' \<rparr>"
    using trace_selected [OF engine_a_loaded lookup_a(1) lookup_a(3) rt_a_found best_a(2),
        where now = 60000000 and default_ttl = 900 and c = no_caches]
    by (simp add: next_hop_def hops_a)
  moreover have "candidate ipv4 (IPv4Address 167772681)
     \<lparr> destination = ''10.0.0.0/16'', target = ''local'',
       core_network_arn = None, state = ''active'' \<rparr>"
    by (simp add: candidate_def ipv4_eval)
  ultimately show ?thesis
    by (simp add: index_a eni_in_def rt_a_def)
qed

text \<open>
  Only the blackhole covers 172.16.0.1.
\<close>

theorem trace_no_route_witness:
  "fst (trace ipv4 api_a 60000000 900 engine_a no_caches ''10.0.1.5'' ''172.16.0.1'') =
     Inr \<lparr> src_ip = ''10.0.1.5'', dst_ip = ''172.16.0.1'', reachable = False,
           hops = [\<lparr> seq = 1, hop_type = ''eni'', hop_id = ''eni-a5'',
                      hop_name = ''src:10.0.1.5'', hop_region = ''eu-west-1'',
                      detail = [(''vpc_id'', Some ''vpc-a''),
                                (''subnet_id'', Some ''subnet-a'')] \<rparr>,
                   \<lparr> seq = 2, hop_type = ''route_table'', hop_id = ''rtb-a'',
                      hop_name = ''private-a'', hop_region = ''eu-west-1'', detail = [] \<rparr>],
           blocked_at = Some \<lparr> seq = 2, hop_type = ''route_table'', hop_id = ''rtb-a'',
                               hop_name = ''private-a'', hop_region = ''eu-west-1'',
                               detail = [] \<rparr>,
           blocked_reason = ''No route to 172.16.0.1 in route table rtb-a'' \<rparr>"
  using trace_no_route [OF engine_a_loaded lookup_a(1) lookup_a(7) rt_a_found
      addresses_a(3) no_candidate_a, where now = 60000000 and default_ttl = 900 and c = no_caches]
  by (simp add: hops_a)

text \<open>
  The peering route to 10.3.0.0/16 has target \<open>local\<close> and no core network
  reference, and 10.3.0.9 is in \<open>vpc-d\<close>.
\<close>

theorem trace_local_other_vpc_witness:
  "fst (trace ipv4 api_a 60000000 900 engine_a no_caches ''10.0.1.5'' ''10.3.0.9'') =
     Inr \<lparr> src_ip = ''10.0.1.5'', dst_ip = ''10.3.0.9'', reachable = False,
           hops = [\<lparr> seq = 1, hop_type = ''eni'', hop_id = ''eni-a5'',
                      hop_name = ''src:10.0.1.5'', hop_region = ''eu-west-1'',
                      detail = [(''vpc_id'', Some ''vpc-a''),
                                (''subnet_id'', Some ''subnet-a'')] \<rparr>,
                   \<lparr> seq = 2, hop_type = ''route_table'', hop_id = ''rtb-a'',
                      hop_name = ''private-a'', hop_region = ''eu-west-1'', detail = [] \<rparr>],
           blocked_at = None, blocked_reason = ''Unsupported route target: local'' \<rparr>"
  using trace_local_other_vpc [OF engine_a_loaded lookup_a(1) lookup_a(6) _ rt_a_found
      best_a(4), where now = 60000000 and default_ttl = 900 and c = no_caches]
  by (simp add: hops_a)


lemma segments_a:
  "get_segment_for_vpc topology_a ''vpc-a'' ''eu-west-1'' = Some ''prod''"
  "get_segment_for_vpc topology_a ''vpc-b'' ''eu-west-1'' = Some ''shared''"
  by (simp_all add: get_segment_for_vpc_def topology_a_def new_topology_def attachments_a_def
        endswith_def get_or_def)

lemma send_via_a:
  "get_send_via_nfg topology_a ''prod'' (Some ''shared'') = Some ''inspection''"
  "get_send_via_nfg topology_a ''prod'' (Some ''prod'') = Some ''inspection''"
  by (simp_all add: get_send_via_nfg_def topology_a_def new_topology_def policy_a_def)

lemma firewall_a:
  "filter (serves ''inspection'' ''eu-west-1'') (cwan_attachments topology_a) =
     [\<lparr> AttachmentId = ''attachment-fw'',
        ResourceArn = Some ''arn:aws:ec2:eu-west-1:111122223333:vpc/vpc-fw'',
        EdgeLocation = Some ''eu-west-1'', SegmentName = None,
        NetworkFunctionGroupName = Some ''inspection'', Tags = [(''Name'', ''fw-eu'')] \<rparr>]"
  by (simp add: serves_def topology_a_def new_topology_def attachments_a_def)

lemma cloudwan_run_a:
  "fst (trace ipv4 api_a 60000000 900 engine_a no_caches ''10.0.1.5'' ''10.1.0.7'') =
     Inr \<lparr> src_ip = ''10.0.1.5'', dst_ip = ''10.1.0.7'', reachable = True,
           hops = [\<lparr> seq = 1, hop_type = ''eni'', hop_id = ''eni-a5'',
                      hop_name = ''src:10.0.1.5'', hop_region = ''eu-west-1'',
                      detail = [(''vpc_id'', Some ''vpc-a''),
                                (''subnet_id'', Some ''subnet-a'')] \<rparr>,
                   \<lparr> seq = 2, hop_type = ''route_table'', hop_id = ''rtb-a'',
                      hop_name = ''private-a'', hop_region = ''eu-west-1'', detail = [] \<rparr>,
                   \<lparr> seq = 3, hop_type = ''cloud_wan_segment'', hop_id = ''prod'',
                      hop_name = ''segment:prod'', hop_region = ''eu-west-1'', detail = [] \<rparr>,
                   \<lparr> seq = 4, hop_type = ''nfg'', hop_id = ''inspection'',
                      hop_name = ''inspection:inspection'', hop_region = ''eu-west-1'',
                      detail = [] \<rparr>,
                   \<lparr> seq = 5, hop_type = ''firewall'', hop_id = ''vpc-fw'',
                      hop_name = ''fw-eu'', hop_region = ''eu-west-1'',
                      detail = [(''attachment_id'', Some ''attachment-fw'')] \<rparr>,
                   \<lparr> seq = 6, hop_type = ''destination'', hop_id = ''eni-b7'',
                      hop_name = ''dst:10.1.0.7'', hop_region = ''eu-west-1'',
                      detail = [(''vpc_id'', Some ''vpc-b''),
                                (''segment'', Some ''shared'')] \<rparr>],
           blocked_at = None, blocked_reason = [] \<rparr>"
proof -
  have "fst (trace ipv4 api_a 60000000 900 engine_a no_caches ''10.0.1.5'' ''10.1.0.7'') =
          Inr (trace_via_cloudwan topology_a
                 \<lparr> src_ip = ''10.0.1.5'', dst_ip = ''10.1.0.7'', reachable = False,
                   hops = [source_hop ''10.0.1.5''
                             (eni_info (eni_in ''eni-a5'' ''vpc-a'' ''subnet-a'') ''10.0.1.5''),
                           route_table_hop rt_a
                             (eni_info (eni_in ''eni-a5'' ''vpc-a'' ''subnet-a'') ''10.0.1.5'')],
                   blocked_at = None, blocked_reason = [] \<rparr>
                 2 (eni_info (eni_in ''eni-a5'' ''vpc-a'' ''subnet-a'') ''10.0.1.5'')
                 (eni_info (eni_in ''eni-b7'' ''vpc-b'' ''subnet-b'') ''10.1.0.7''))"
    using trace_selected [OF engine_a_loaded lookup_a(1) lookup_a(5) rt_a_found best_a(3),
        where now = 60000000 and default_ttl = 900 and c = no_caches]
    by (simp add: next_hop_def eni_info_def eni_in_def)
  moreover have "firewall_loop (cwan_attachments topology_a) ''inspection'' ''eu-west-1'' n hs =
      (n + 1, hs @ [firewall_hop \<lparr> AttachmentId = ''attachment-fw'',
        ResourceArn = Some ''arn:aws:ec2:eu-west-1:111122223333:vpc/vpc-fw'',
        EdgeLocation = Some ''eu-west-1'', SegmentName = None,
        NetworkFunctionGroupName = Some ''inspection'', Tags = [(''Name'', ''fw-eu'')] \<rparr> (n + 1)])"
    for n hs
    by (rule firewall_loop_one [OF firewall_a])
  ultimately show ?thesis
    using segments_a send_via_a(1)
    by (simp add: trace_via_cloudwan_def hops_a firewall_hop_def last_part_def name_tag_def
          py_str_def)
qed

text \<open>
  Claim C9 as stated fails on the small network: the route selected for 10.1.0.7 has
  target \<open>local\<close>, as the parser leaves every Cloud WAN route, the interfaces lie in
  \<open>vpc-a\<close> and \<open>vpc-b\<close>, and the trace takes the Cloud WAN path to a reachable
  result.
\<close>

theorem trace_local_other_vpc_counterexample:
  "find_best_route ipv4 (routes rt_a) ''10.1.0.7''
     = Inr (Some \<lparr> destination = ''10.1.0.0/16'', target = ''local'',
                     core_network_arn =
                       Some ''arn:aws:networkmanager::111122223333:core-network/cn-1'',
                     state = ''active'' \<rparr>) \<and>
   map_option vpc_id (eni_index topology_a ''10.0.1.5'') = Some ''vpc-a'' \<and>
   map_option vpc_id (eni_index topology_a ''10.1.0.7'') = Some ''vpc-b'' \<and>
   map_sum id reachable
     (fst (trace ipv4 api_a 60000000 900 engine_a no_caches ''10.0.1.5'' ''10.1.0.7''))
     = Inr True \<and>
   map_sum id (map hop_type \<circ> hops)
     (fst (trace ipv4 api_a 60000000 900 engine_a no_caches ''10.0.1.5'' ''10.1.0.7''))
     = Inr [''eni'', ''route_table'', ''cloud_wan_segment'', ''nfg'', ''firewall'',
            ''destination'']"
  by (simp add: best_a(3) index_a eni_in_def cloudwan_run_a)


text \<open>On the small network the trace from 10.0.1.5 to 10.1.0.7 has these six hops.\<close>

theorem trace_cloudwan_inspection_witness:
  "fst (trace ipv4 api_a 60000000 900 engine_a no_caches ''10.0.1.5'' ''10.1.0.7'') =
     Inr \<lparr> src_ip = ''10.0.1.5'', dst_ip = ''10.1.0.7'', reachable = True,
           hops = [\<lparr> seq = 1, hop_type = ''eni'', hop_id = ''eni-a5'',
                      hop_name = ''src:10.0.1.5'', hop_region = ''eu-west-1'',
                      detail = [(''vpc_id'', Some ''vpc-a''),
                                (''subnet_id'', Some ''subnet-a'')] \<rparr>,
                   \<lparr> seq = 2, hop_type = ''route_table'', hop_id = ''rtb-a'',
                      hop_name = ''private-a'', hop_region = ''eu-west-1'', detail = [] \<rparr>,
                   \<lparr> seq = 3, hop_type = ''cloud_wan_segment'', hop_id = ''prod'',
                      hop_name = ''segment:prod'', hop_region = ''eu-west-1'', detail = [] \<rparr>,
                   \<lparr> seq = 4, hop_type = ''nfg'', hop_id = ''inspection'',
                      hop_name = ''inspection:inspection'', hop_region = ''eu-west-1'',
                      detail = [] \<rparr>,
                   \<lparr> seq = 5, hop_type = ''firewall'', hop_id = ''vpc-fw'',
                      hop_name = ''fw-eu'', hop_region = ''eu-west-1'',
                      detail = [(''attachment_id'', Some ''attachment-fw'')] \<rparr>,
                   \<lparr> seq = 6, hop_type = ''destination'', hop_id = ''eni-b7'',
                      hop_name = ''dst:10.1.0.7'', hop_region = ''eu-west-1'',
                      detail = [(''vpc_id'', Some ''vpc-b''),
                                (''segment'', Some ''shared'')] \<rparr>],
           blocked_at = None, blocked_reason = [] \<rparr>"
proof -
  have seg: "get_segment_for_vpc topology_a
               (vpc_id (eni_info (eni_in ''eni-a5'' ''vpc-a'' ''subnet-a'') ''10.0.1.5''))
               (region (eni_info (eni_in ''eni-a5'' ''vpc-a'' ''subnet-a'') ''10.0.1.5''))
             = Some ''prod''"
    by (simp add: eni_info_def eni_in_def segments_a)
  have nfg: "get_send_via_nfg topology_a ''prod''
               (get_segment_for_vpc topology_a
                  (vpc_id (eni_info (eni_in ''eni-b7'' ''vpc-b'' ''subnet-b'') ''10.1.0.7''))
                  (region (eni_info (eni_in ''eni-b7'' ''vpc-b'' ''subnet-b'') ''10.1.0.7'')))
             = Some ''inspection''"
    by (simp add: eni_info_def eni_in_def segments_a send_via_a)
  have fw: "filter (serves ''inspection''
                     (region (eni_info (eni_in ''eni-a5'' ''vpc-a'' ''subnet-a'') ''10.0.1.5'')))
              (cwan_attachments topology_a) =
            [\<lparr> AttachmentId = ''attachment-fw'',
               ResourceArn = Some ''arn:aws:ec2:eu-west-1:111122223333:vpc/vpc-fw'',
               EdgeLocation = Some ''eu-west-1'', SegmentName = None,
               NetworkFunctionGroupName = Some ''inspection'',
               Tags = [(''Name'', ''fw-eu'')] \<rparr>]"
    by (simp add: eni_info_def eni_in_def firewall_a)
  from trace_cloudwan_inspection [OF engine_a_loaded lookup_a(1) lookup_a(5) rt_a_found
      best_a(3) _ _ seg _ nfg _ fw,
      where now = 60000000 and default_ttl = 900 and c = no_caches]
  show ?thesis
    by (simp add: hops_a firewall_hop_def last_part_def name_tag_def segments_a)
qed

text \<open>
  Claim C5 as stated fails on the small network for the destination 10.0.4.9: the
  selected route carries a core network reference, the source VPC's attachment gives
  segment \<open>prod\<close>, the send-via action for \<open>prod\<close> to \<open>prod\<close> names the group
  \<open>inspection\<close>, one attachment serves it in the source's region, and both
  interfaces are in \<open>eu-west-1\<close>; but they share \<open>vpc-a\<close> and the route's target
  is \<open>local\<close>, so the local branch answers with three hops.
\<close>

theorem trace_cloudwan_inspection_counterexample:
  "find_best_route ipv4 (routes rt_a) ''10.0.4.9''
     = Inr (Some \<lparr> destination = ''10.0.4.0/24'', target = ''local'',
                     core_network_arn =
                       Some ''arn:aws:networkmanager::111122223333:core-network/cn-1'',
                     state = ''active'' \<rparr>) \<and>
   eni_index topology_a ''10.0.1.5'' = Some (eni_in ''eni-a5'' ''vpc-a'' ''subnet-a'') \<and>
   eni_index topology_a ''10.0.4.9'' = Some (eni_in ''eni-a49'' ''vpc-a'' ''subnet-a4'') \<and>
   region (eni_in ''eni-a5'' ''vpc-a'' ''subnet-a'')
     = region (eni_in ''eni-a49'' ''vpc-a'' ''subnet-a4'') \<and>
   get_segment_for_vpc topology_a ''vpc-a'' ''eu-west-1'' = Some ''prod'' \<and>
   get_send_via_nfg topology_a ''prod'' (Some ''prod'') = Some ''inspection'' \<and>
   length (filter (serves ''inspection'' ''eu-west-1'') (cwan_attachments topology_a)) = 1 \<and>
   fst (trace ipv4 api_a 60000000 900 engine_a no_caches ''10.0.1.5'' ''10.0.4.9'') =
     Inr \<lparr> src_ip = ''10.0.1.5'', dst_ip = ''10.0.4.9'', reachable = True,
           hops = [\<lparr> seq = 1, hop_type = ''eni'', hop_id = ''eni-a5'',
                      hop_name = ''src:10.0.1.5'', hop_region = ''eu-west-1'',
                      detail = [(''vpc_id'', Some ''vpc-a''),
                                (''subnet_id'', Some ''subnet-a'')] \<rparr>,
                   \<lparr> seq = 2, hop_type = ''route_table'', hop_id = ''rtb-a'',
                      hop_name = ''private-a'', hop_region = ''eu-west-1'', detail = [] \<rparr>,
                   \<lparr> seq = 3, hop_type = ''destination'', hop_id = ''eni-a49'',
                      hop_name = ''dst:10.0.4.9'', hop_region = ''eu-west-1'',
                      detail = [] \<rparr>],
           blocked_at = None, blocked_reason = [] \<rparr>"
proof -
  have "fst (trace ipv4 api_a 60000000 900 engine_a no_caches ''10.0.1.5'' ''10.0.4.9'') =
     Inr \<lparr> src_ip = ''10.0.1.5'', dst_ip = ''10.0.4.9'', reachable = True,
           hops = [\<lparr> seq = 1, hop_type = ''eni'', hop_id = ''eni-a5'',
                      hop_name = ''src:10.0.1.5'', hop_region = ''eu-west-1'',
                      detail = [(''vpc_id'', Some ''vpc-a''),
                                (''subnet_id'', Some ''subnet-a'')] \<rparr>,
                   \<lparr> seq = 2, hop_type = ''route_table'', hop_id = ''rtb-a'',
                      hop_name = ''private-a'', hop_region = ''eu-west-1'', detail = [] \<rparr>,
                   \<lparr> seq = 3, hop_type = ''destination'', hop_id = ''eni-a49'',
                      hop_name = ''dst:10.0.4.9'', hop_region = ''eu-west-1'',
                      detail = [] \<rparr>],
           blocked_at = None, blocked_reason = [] \<rparr>"
    using trace_selected [OF engine_a_loaded lookup_a(1) lookup_a(4) rt_a_found best_a(5),
        where now = 60000000 and default_ttl = 900 and c = no_caches]
    by (simp add: next_hop_def hops_a)
  then show ?thesis
    by (simp add: best_a(5) index_a segments_a send_via_a firewall_a) (simp add: eni_in_def)
qed

text \<open>
  On the small network 192.168.0.1 is in no index and found by no live search, as
  source and as destination.
\<close>

lemma unresolved_a: "unresolved api_a topology_a ''192.168.0.1''"
  by (simp add: unresolved_def index_a find_eni_in_region_def)
     (simp add: topology_a_def new_topology_def api_a_def)

theorem trace_unresolved_witness:
  "fst (trace ipv4 api_a 60000000 900 engine_a no_caches ''192.168.0.1'' ''10.0.1.9'') =
     Inr \<lparr> src_ip = ''192.168.0.1'', dst_ip = ''10.0.1.9'', reachable = False, hops = [],
           blocked_at = None,
           blocked_reason = ''Source IP 192.168.0.1 not found in topology'' \<rparr> \<and>
   fst (trace ipv4 api_a 60000000 900 engine_a no_caches ''10.0.1.5'' ''192.168.0.1'') =
     Inr \<lparr> src_ip = ''10.0.1.5'', dst_ip = ''192.168.0.1'', reachable = False, hops = [],
           blocked_at = None,
           blocked_reason = ''Destination IP 192.168.0.1 not found in topology'' \<rparr>"
proof -
  from trace_unresolved [OF engine_a_loaded,
      of api_a "''192.168.0.1''" ipv4 60000000 900 no_caches "''10.0.1.9''"] unresolved_a
  have first: "fst (trace ipv4 api_a 60000000 900 engine_a no_caches ''192.168.0.1'' ''10.0.1.9'') =
     Inr \<lparr> src_ip = ''192.168.0.1'', dst_ip = ''10.0.1.9'', reachable = False, hops = [],
           blocked_at = None,
           blocked_reason = ''Source IP 192.168.0.1 not found in topology'' \<rparr>"
    by simp
  from trace_unresolved [OF engine_a_loaded,
      of api_a "''10.0.1.5''" ipv4 60000000 900 no_caches "''192.168.0.1''"]
    lookup_a(1) unresolved_a
  have "fst (trace ipv4 api_a 60000000 900 engine_a no_caches ''10.0.1.5'' ''192.168.0.1'') =
     Inr \<lparr> src_ip = ''10.0.1.5'', dst_ip = ''192.168.0.1'', reachable = False, hops = [],
           blocked_at = None,
           blocked_reason = ''Destination IP 192.168.0.1 not found in topology'' \<rparr>"
    by simp
  with first show ?thesis by simp
qed


end
